theory Spec2Isabelle
  imports
    Complex_Main
    "HOL-Library.Word"
    "HOL-Library.Log_Nat"
    "HOL-Library.Monad_Syntax"
    "HOL-Library.Sublist"
    "HOL-Library.Multiset"
begin

section \<open>Go base types\<close>

text \<open>
  The facade in \<^verbatim>\<open>instrumentation/prometheus/prometheus.go\<close> receives counts as Go
  \<^verbatim>\<open>int\<close> (64 bits wide on the 64-bit platforms the service is built for) and latencies
  as \<^verbatim>\<open>time.Duration\<close>, a signed 64-bit count of nanoseconds. Both are read as two's
  complement with \<open>sint\<close>.
\<close>

type_synonym int64 = "64 word"
type_synonym go_int = "64 word"
type_synonym Duration = "64 word"

text \<open>
  A finite \<^verbatim>\<open>float64\<close> is represented by the real number it denotes.
\<close>

type_synonym float64 = real

text \<open>
  \<^verbatim>\<open>func (d Duration) Nanoseconds() int64\<close> of the standard library returns the duration
  as an integer nanosecond count: the conversion \<^verbatim>\<open>int64(d)\<close>.
\<close>

definition Nanoseconds :: "Duration \<Rightarrow> int64" where
  "Nanoseconds d = d"

text \<open>
  The Go conversion \<^verbatim>\<open>float64(n)\<close> of a 64-bit signed integer rounds it to the nearest
  value with a 53-bit significand, ties to the even significand. \<open>round_half_even a e\<close>
  drops the \<open>e\<close> low bits of a non-negative \<open>a\<close> under that rule; the magnitude of
  every 64-bit integer has at most 64 bits, so the rounded result is always finite.
\<close>

definition round_half_even :: "int \<Rightarrow> nat \<Rightarrow> int" where
  "round_half_even a e =
     (let q = a div 2 ^ e; r = a mod 2 ^ e
      in if 2 ^ e < 2 * r \<or> (2 * r = 2 ^ e \<and> odd q) then q + 1 else q)"

definition float64_of_int :: "int \<Rightarrow> float64" where
  "float64_of_int n =
     (let a = \<bar>n\<bar>; e = nat (bitlen a - 53)
      in of_int (sgn n * (round_half_even a e * 2 ^ e)))"

definition float64 :: "int64 \<Rightarrow> float64" where
  "float64 x = float64_of_int (sint x)"

section \<open>The metrics library, as the specification describes it\<close>

text \<open>
  The facade is written against the package \<^verbatim>\<open>github.com/prometheus/client_golang/prometheus\<close>,
  whose code is not part of the repository. Its objects live in a store: a counter object
  is a cell of \<open>counters\<close>, a histogram object a cell of \<open>histograms\<close>, and a
  \<^verbatim>\<open>prometheus.Counter\<close> or \<^verbatim>\<open>prometheus.Histogram\<close> value held by the facade is a reference
  to such a cell. The process-wide default registry is the list \<open>registry\<close> of
  registrations (name, help text, metric) in registration order. Every call of the facade
  passes \<^verbatim>\<open>prometheus.NilLabels\<close>, the empty label set, so each object carries one value
  and the label argument is left out.
\<close>

datatype Counter = CounterRef (counter_addr: nat)
datatype Histogram = HistogramRef (histogram_addr: nat)
datatype Metric = CounterMetric Counter | HistogramMetric Histogram

record histogram_object =
  sample_count :: nat
  sample_sum :: float64
  observations :: "float64 list"

record world =
  counters :: "float64 list"
  histograms :: "histogram_object list"
  registry :: "(string \<times> string \<times> Metric) list"

definition init_world :: world where
  "init_world = \<lparr> counters = [], histograms = [], registry = [] \<rparr>"

definition NewCounter :: "world \<Rightarrow> Counter \<times> world" where
  \<comment> \<open>Modelled from the spec: \<^verbatim>\<open>prometheus.NewCounter\<close> is not in the repository; a counter
      is an accumulator whose current value starts at 0. The new object takes the next
      free cell.\<close>
  "NewCounter w = (CounterRef (length (counters w)), w\<lparr>counters := counters w @ [0]\<rparr>)"

definition empty_histogram :: histogram_object where
  "empty_histogram = \<lparr> sample_count = 0, sample_sum = 0, observations = [] \<rparr>"

definition NewDefaultHistogram :: "world \<Rightarrow> Histogram \<times> world" where
  \<comment> \<open>Modelled from the spec: \<^verbatim>\<open>prometheus.NewDefaultHistogram\<close> is not in the repository; a
      histogram keeps a running count and sum and per-bucket counts. The bucket boundaries
      are left to the implementation, so the object keeps the observed samples, which
      determine the count of any bucket (\<open>bucket_count\<close>).\<close>
  "NewDefaultHistogram w =
     (HistogramRef (length (histograms w)), w\<lparr>histograms := histograms w @ [empty_histogram]\<rparr>)"

definition bucket_count :: "float64 \<Rightarrow> float64 \<Rightarrow> histogram_object \<Rightarrow> nat" where
  "bucket_count lo hi h = length (filter (\<lambda>v. lo < v \<and> v \<le> hi) (observations h))"

definition Increment :: "Counter \<Rightarrow> world \<Rightarrow> world" where
  \<comment> \<open>Modelled from the spec: \<^verbatim>\<open>Counter.Increment\<close> is not in the repository; it adds 1
      (value += 1) and has no failure condition.\<close>
  "Increment c w =
     w\<lparr>counters := (counters w)[counter_addr c := counters w ! counter_addr c + 1]\<rparr>"

definition IncrementBy :: "Counter \<Rightarrow> float64 \<Rightarrow> world \<Rightarrow> world" where
  \<comment> \<open>Modelled from the spec: \<^verbatim>\<open>Counter.IncrementBy\<close> is not in the repository; it adds its
      argument (value += n).\<close>
  "IncrementBy c v w =
     w\<lparr>counters := (counters w)[counter_addr c := counters w ! counter_addr c + v]\<rparr>"

definition observe :: "float64 \<Rightarrow> histogram_object \<Rightarrow> histogram_object" where
  \<comment> \<open>Modelled from the spec: one observation raises the total sample count by one and adds
      the value to the running sum; the sample is kept for the bucket counts.\<close>
  "observe v h = h\<lparr>sample_count := sample_count h + 1, sample_sum := sample_sum h + v,
                   observations := observations h @ [v]\<rparr>"

definition Add :: "Histogram \<Rightarrow> float64 \<Rightarrow> world \<Rightarrow> world" where
  \<comment> \<open>Modelled from the spec: \<^verbatim>\<open>Histogram.Add\<close> (the spec's Observe) is not in the
      repository; it records one sample: the bucket containing the value and the total
      count go up by one and the value is added to the running sum.\<close>
  "Add h v w =
     w\<lparr>histograms := (histograms w)[histogram_addr h := observe v (histograms w ! histogram_addr h)]\<rparr>"

definition registered_names :: "world \<Rightarrow> string list" where
  "registered_names w = map fst (registry w)"

definition Register :: "string \<Rightarrow> string \<Rightarrow> Metric \<Rightarrow> world \<Rightarrow> world option" where
  \<comment> \<open>Modelled from the spec: \<^verbatim>\<open>prometheus.Register\<close> is not in the repository; it binds a
      name to a metric instance and fails fatally if the name is already registered.
      \<open>None\<close> is the fatal failure, which ends the caller as well.\<close>
  "Register name docstring metric w =
     (if name \<in> set (registered_names w) then None
      else Some (w\<lparr>registry := registry w @ [(name, docstring, metric)]\<rparr>))"

definition lookup_metric :: "world \<Rightarrow> string \<Rightarrow> Metric option" where
  "lookup_metric w name = map_option snd (map_of (registry w) name)"

datatype line =
    Help string string
  | Type string string
  | Sample string float64
  | SampleSum string float64
  | SampleCount string nat

definition render_metric :: "world \<Rightarrow> string \<times> string \<times> Metric \<Rightarrow> line list" where
  "render_metric w r =
     (case r of
        (name, docstring, CounterMetric c) \<Rightarrow>
          [Help name docstring, Type name ''counter'', Sample name (counters w ! counter_addr c)]
      | (name, docstring, HistogramMetric h) \<Rightarrow>
          [Help name docstring, Type name ''histogram'',
           SampleSum name (sample_sum (histograms w ! histogram_addr h)),
           SampleCount name (sample_count (histograms w ! histogram_addr h))])"

definition Render :: "world \<Rightarrow> line list" where
  \<comment> \<open>Modelled from the spec: the exposition renderer is not in the repository; it produces
      one block per registered metric, in registration order, stating the metric's name,
      help text, type and current value. The per-bucket lines of a histogram depend on
      boundaries the spec leaves open and are not produced.\<close>
  "Render w = concat (map (render_metric w) (registry w))"

section \<open>The facade\<close>

text \<open>
  The struct \<^verbatim>\<open>PrometheusInstrumentation\<close> holds one metric for every instrumented method.
  Its methods have value receivers: a call gets a copy of the struct and cannot change the
  caller's fields, so a method of the model takes the facade and returns the new store only.
\<close>

record PrometheusInstrumentation =
  insertCallCount :: Counter
  insertRecordCount :: Counter
  insertCallDuration :: Histogram
  insertRecordDuration :: Histogram
  insertQuorumFailureCount :: Counter
  selectCallCount :: Counter
  selectKeysCount :: Counter
  selectSendToCount :: Counter
  selectFirstResponseDuration :: Histogram
  selectPartialErrorCount :: Counter
  selectBlockingDuration :: Histogram
  selectOverheadDuration :: Histogram
  selectDuration :: Histogram
  selectSendAllPromotionCount :: Counter
  selectRetrievedCount :: Counter
  selectReturnedCount :: Counter
  selectRepairNeededCount :: Counter
  deleteCallCount :: Counter
  deleteRecordCount :: Counter
  deleteCallDuration :: Histogram
  deleteRecordDuration :: Histogram
  deleteQuorumFailureCount :: Counter
  repairCallCount :: Counter
  repairRequestCount :: Counter
  repairDiscardedCount :: Counter
  repairWriteSuccessCount :: Counter
  repairWriteFailureCount :: Counter
  walkKeysCount :: Counter

text \<open>
  \<^verbatim>\<open>func New(prefix string) PrometheusInstrumentation\<close> builds the 28 metric objects in the
  order of the struct literal and then registers each one under the prefix followed by a fixed
  name. \<^verbatim>\<open>New\<close> looks at no result of \<^verbatim>\<open>prometheus.Register\<close>, so the only way a
  registration ends \<^verbatim>\<open>New\<close> is its fatal failure, the result \<open>None\<close>.
\<close>

definition New :: "string \<Rightarrow> world \<Rightarrow> (PrometheusInstrumentation \<times> world) option" where
  "New pfx w0 =
    (let (a_insertCallCount, w) = NewCounter w0;
         (a_insertRecordCount, w) = NewCounter w;
         (a_insertCallDuration, w) = NewDefaultHistogram w;
         (a_insertRecordDuration, w) = NewDefaultHistogram w;
         (a_insertQuorumFailureCount, w) = NewCounter w;
         (a_selectCallCount, w) = NewCounter w;
         (a_selectKeysCount, w) = NewCounter w;
         (a_selectSendToCount, w) = NewCounter w;
         (a_selectFirstResponseDuration, w) = NewDefaultHistogram w;
         (a_selectPartialErrorCount, w) = NewCounter w;
         (a_selectBlockingDuration, w) = NewDefaultHistogram w;
         (a_selectOverheadDuration, w) = NewDefaultHistogram w;
         (a_selectDuration, w) = NewDefaultHistogram w;
         (a_selectSendAllPromotionCount, w) = NewCounter w;
         (a_selectRetrievedCount, w) = NewCounter w;
         (a_selectReturnedCount, w) = NewCounter w;
         (a_selectRepairNeededCount, w) = NewCounter w;
         (a_deleteCallCount, w) = NewCounter w;
         (a_deleteRecordCount, w) = NewCounter w;
         (a_deleteCallDuration, w) = NewDefaultHistogram w;
         (a_deleteRecordDuration, w) = NewDefaultHistogram w;
         (a_deleteQuorumFailureCount, w) = NewCounter w;
         (a_repairCallCount, w) = NewCounter w;
         (a_repairRequestCount, w) = NewCounter w;
         (a_repairDiscardedCount, w) = NewCounter w;
         (a_repairWriteSuccessCount, w) = NewCounter w;
         (a_repairWriteFailureCount, w) = NewCounter w;
         (a_walkKeysCount, w) = NewCounter w;
         i = \<lparr>
           insertCallCount = a_insertCallCount,
           insertRecordCount = a_insertRecordCount,
           insertCallDuration = a_insertCallDuration,
           insertRecordDuration = a_insertRecordDuration,
           insertQuorumFailureCount = a_insertQuorumFailureCount,
           selectCallCount = a_selectCallCount,
           selectKeysCount = a_selectKeysCount,
           selectSendToCount = a_selectSendToCount,
           selectFirstResponseDuration = a_selectFirstResponseDuration,
           selectPartialErrorCount = a_selectPartialErrorCount,
           selectBlockingDuration = a_selectBlockingDuration,
           selectOverheadDuration = a_selectOverheadDuration,
           selectDuration = a_selectDuration,
           selectSendAllPromotionCount = a_selectSendAllPromotionCount,
           selectRetrievedCount = a_selectRetrievedCount,
           selectReturnedCount = a_selectReturnedCount,
           selectRepairNeededCount = a_selectRepairNeededCount,
           deleteCallCount = a_deleteCallCount,
           deleteRecordCount = a_deleteRecordCount,
           deleteCallDuration = a_deleteCallDuration,
           deleteRecordDuration = a_deleteRecordDuration,
           deleteQuorumFailureCount = a_deleteQuorumFailureCount,
           repairCallCount = a_repairCallCount,
           repairRequestCount = a_repairRequestCount,
           repairDiscardedCount = a_repairDiscardedCount,
           repairWriteSuccessCount = a_repairWriteSuccessCount,
           repairWriteFailureCount = a_repairWriteFailureCount,
           walkKeysCount = a_walkKeysCount \<rparr>
     in do {
       w \<leftarrow> Register (pfx @ ''insert_call_count'')
              ''How many insert calls have been made.''
              (CounterMetric (insertCallCount i)) w;
       w \<leftarrow> Register (pfx @ ''insert_record_count'')
              ''How many records have been inserted.''
              (CounterMetric (insertRecordCount i)) w;
       w \<leftarrow> Register (pfx @ ''insert_call_duration_nanoseconds'')
              ''Insert duration per-call.''
              (HistogramMetric (insertCallDuration i)) w;
       w \<leftarrow> Register (pfx @ ''insert_record_duration_nanoseconds'')
              ''Insert duration per-record.''
              (HistogramMetric (insertRecordDuration i)) w;
       w \<leftarrow> Register (pfx @ ''insert_quorum_failure_count'')
              ''Insert quorum failure count.''
              (CounterMetric (insertQuorumFailureCount i)) w;
       w \<leftarrow> Register (pfx @ ''select_call_count'')
              ''How many select calls have been made.''
              (CounterMetric (selectCallCount i)) w;
       w \<leftarrow> Register (pfx @ ''select_keys_count'')
              ''How many keys have been selected.''
              (CounterMetric (selectKeysCount i)) w;
       w \<leftarrow> Register (pfx @ ''select_send_to_count'')
              ''How many clusters have received select calls.''
              (CounterMetric (selectSendToCount i)) w;
       w \<leftarrow> Register (pfx @ ''select_first_response_duration_nanoseconds'')
              ''Select first response duration.''
              (HistogramMetric (selectFirstResponseDuration i)) w;
       w \<leftarrow> Register (pfx @ ''select_partial_error_count'')
              ''How many partial errors have occurred in selects.''
              (CounterMetric (selectPartialErrorCount i)) w;
       w \<leftarrow> Register (pfx @ ''select_blocking_duration_nanoseconds'')
              ''Select blocking duration.''
              (HistogramMetric (selectBlockingDuration i)) w;
       w \<leftarrow> Register (pfx @ ''select_overhead_duration_nanoseconds'')
              ''Select overhead duration.''
              (HistogramMetric (selectOverheadDuration i)) w;
       w \<leftarrow> Register (pfx @ ''select_duration_nanoseconds'')
              ''Overall select duration.''
              (HistogramMetric (selectDuration i)) w;
       w \<leftarrow> Register (pfx @ ''select_send_all_promotion_count'')
              ''How many select requests were promoted to a send-all, in appropriate read strategies.''
              (CounterMetric (selectSendAllPromotionCount i)) w;
       w \<leftarrow> Register (pfx @ ''select_retrieved_count'')
              ''How many key-score-member tuples have been retrieved from clusters by select calls.''
              (CounterMetric (selectRetrievedCount i)) w;
       w \<leftarrow> Register (pfx @ ''select_returned_count'')
              ''How many key-score-member tuples have been returned to clients by select calls.''
              (CounterMetric (selectReturnedCount i)) w;
       w \<leftarrow> Register (pfx @ ''select_repair_needed_count'')
              ''How many repairs have been detected and requested by select calls.''
              (CounterMetric (selectRepairNeededCount i)) w;
       w \<leftarrow> Register (pfx @ ''delete_call_count'')
              ''How many delete calls have been made.''
              (CounterMetric (deleteCallCount i)) w;
       w \<leftarrow> Register (pfx @ ''delete_record_count'')
              ''How many records have been deleted in delete calls.''
              (CounterMetric (deleteRecordCount i)) w;
       w \<leftarrow> Register (pfx @ ''delete_call_duration_nanoseconds'')
              ''Delete duration, per-call.''
              (HistogramMetric (deleteCallDuration i)) w;
       w \<leftarrow> Register (pfx @ ''delete_record_duration_nanoseconds'')
              ''Delete duration, per-record.''
              (HistogramMetric (deleteRecordDuration i)) w;
       w \<leftarrow> Register (pfx @ ''delete_quorum_failure_count'')
              ''Delete quorum failure count.''
              (CounterMetric (deleteQuorumFailureCount i)) w;
       w \<leftarrow> Register (pfx @ ''repair_call_count'')
              ''How many repair calls have been made.''
              (CounterMetric (repairCallCount i)) w;
       w \<leftarrow> Register (pfx @ ''repair_request_count'')
              ''How many key-member tuples have been repaired.''
              (CounterMetric (repairRequestCount i)) w;
       w \<leftarrow> Register (pfx @ ''repair_discarded_count'')
              ''How many repair calls have been discarded due to rate or buffer limits.''
              (CounterMetric (repairDiscardedCount i)) w;
       w \<leftarrow> Register (pfx @ ''repair_write_success_count'')
              ''Repair write success count.''
              (CounterMetric (repairWriteSuccessCount i)) w;
       w \<leftarrow> Register (pfx @ ''repair_write_failure_count'')
              ''Repair write failure count.''
              (CounterMetric (repairWriteFailureCount i)) w;
       w \<leftarrow> Register (pfx @ ''walk_keys_count'')
              ''How many keys have been walked by the walker process.''
              (CounterMetric (walkKeysCount i)) w;
       Some (i, w) })"

text \<open>
  The 28 methods of the \<^verbatim>\<open>Instrumentation\<close> interface. Each body is one call on one field.
\<close>

definition InsertCall :: "PrometheusInstrumentation \<Rightarrow> world \<Rightarrow> world" where
  "InsertCall i = Increment (insertCallCount i)"

definition InsertRecordCount :: "PrometheusInstrumentation \<Rightarrow> go_int \<Rightarrow> world \<Rightarrow> world" where
  "InsertRecordCount i n = IncrementBy (insertRecordCount i) (float64 n)"

definition InsertCallDuration :: "PrometheusInstrumentation \<Rightarrow> Duration \<Rightarrow> world \<Rightarrow> world" where
  "InsertCallDuration i d = Add (insertCallDuration i) (float64 (Nanoseconds d))"

definition InsertRecordDuration :: "PrometheusInstrumentation \<Rightarrow> Duration \<Rightarrow> world \<Rightarrow> world" where
  "InsertRecordDuration i d = Add (insertRecordDuration i) (float64 (Nanoseconds d))"

definition InsertQuorumFailure :: "PrometheusInstrumentation \<Rightarrow> world \<Rightarrow> world" where
  "InsertQuorumFailure i = Increment (insertQuorumFailureCount i)"

definition SelectCall :: "PrometheusInstrumentation \<Rightarrow> world \<Rightarrow> world" where
  "SelectCall i = Increment (selectCallCount i)"

definition SelectKeys :: "PrometheusInstrumentation \<Rightarrow> go_int \<Rightarrow> world \<Rightarrow> world" where
  "SelectKeys i n = IncrementBy (selectKeysCount i) (float64 n)"

definition SelectSendTo :: "PrometheusInstrumentation \<Rightarrow> go_int \<Rightarrow> world \<Rightarrow> world" where
  "SelectSendTo i n = IncrementBy (selectSendToCount i) (float64 n)"

definition SelectFirstResponseDuration :: "PrometheusInstrumentation \<Rightarrow> Duration \<Rightarrow> world \<Rightarrow> world" where
  "SelectFirstResponseDuration i d = Add (selectFirstResponseDuration i) (float64 (Nanoseconds d))"

definition SelectPartialError :: "PrometheusInstrumentation \<Rightarrow> world \<Rightarrow> world" where
  "SelectPartialError i = Increment (selectPartialErrorCount i)"

definition SelectBlockingDuration :: "PrometheusInstrumentation \<Rightarrow> Duration \<Rightarrow> world \<Rightarrow> world" where
  "SelectBlockingDuration i d = Add (selectBlockingDuration i) (float64 (Nanoseconds d))"

definition SelectOverheadDuration :: "PrometheusInstrumentation \<Rightarrow> Duration \<Rightarrow> world \<Rightarrow> world" where
  "SelectOverheadDuration i d = Add (selectOverheadDuration i) (float64 (Nanoseconds d))"

definition SelectDuration :: "PrometheusInstrumentation \<Rightarrow> Duration \<Rightarrow> world \<Rightarrow> world" where
  "SelectDuration i d = Add (selectDuration i) (float64 (Nanoseconds d))"

definition SelectSendAllPromotion :: "PrometheusInstrumentation \<Rightarrow> world \<Rightarrow> world" where
  "SelectSendAllPromotion i = Increment (selectSendAllPromotionCount i)"

definition SelectRetrieved :: "PrometheusInstrumentation \<Rightarrow> go_int \<Rightarrow> world \<Rightarrow> world" where
  "SelectRetrieved i n = IncrementBy (selectRetrievedCount i) (float64 n)"

definition SelectReturned :: "PrometheusInstrumentation \<Rightarrow> go_int \<Rightarrow> world \<Rightarrow> world" where
  "SelectReturned i n = IncrementBy (selectReturnedCount i) (float64 n)"

definition SelectRepairNeeded :: "PrometheusInstrumentation \<Rightarrow> go_int \<Rightarrow> world \<Rightarrow> world" where
  "SelectRepairNeeded i n = IncrementBy (selectRepairNeededCount i) (float64 n)"

definition DeleteCall :: "PrometheusInstrumentation \<Rightarrow> world \<Rightarrow> world" where
  "DeleteCall i = Increment (deleteCallCount i)"

definition DeleteRecordCount :: "PrometheusInstrumentation \<Rightarrow> go_int \<Rightarrow> world \<Rightarrow> world" where
  "DeleteRecordCount i n = IncrementBy (deleteRecordCount i) (float64 n)"

definition DeleteCallDuration :: "PrometheusInstrumentation \<Rightarrow> Duration \<Rightarrow> world \<Rightarrow> world" where
  "DeleteCallDuration i d = Add (deleteCallDuration i) (float64 (Nanoseconds d))"

definition DeleteRecordDuration :: "PrometheusInstrumentation \<Rightarrow> Duration \<Rightarrow> world \<Rightarrow> world" where
  "DeleteRecordDuration i d = Add (deleteRecordDuration i) (float64 (Nanoseconds d))"

definition DeleteQuorumFailure :: "PrometheusInstrumentation \<Rightarrow> world \<Rightarrow> world" where
  "DeleteQuorumFailure i = Increment (deleteQuorumFailureCount i)"

definition RepairCall :: "PrometheusInstrumentation \<Rightarrow> world \<Rightarrow> world" where
  "RepairCall i = Increment (repairCallCount i)"

definition RepairRequest :: "PrometheusInstrumentation \<Rightarrow> go_int \<Rightarrow> world \<Rightarrow> world" where
  "RepairRequest i n = IncrementBy (repairRequestCount i) (float64 n)"

definition RepairDiscarded :: "PrometheusInstrumentation \<Rightarrow> go_int \<Rightarrow> world \<Rightarrow> world" where
  "RepairDiscarded i n = IncrementBy (repairDiscardedCount i) (float64 n)"

definition RepairWriteSuccess :: "PrometheusInstrumentation \<Rightarrow> go_int \<Rightarrow> world \<Rightarrow> world" where
  "RepairWriteSuccess i n = IncrementBy (repairWriteSuccessCount i) (float64 n)"

definition RepairWriteFailure :: "PrometheusInstrumentation \<Rightarrow> go_int \<Rightarrow> world \<Rightarrow> world" where
  "RepairWriteFailure i n = IncrementBy (repairWriteFailureCount i) (float64 n)"

definition WalkKeys :: "PrometheusInstrumentation \<Rightarrow> go_int \<Rightarrow> world \<Rightarrow> world" where
  "WalkKeys i n = IncrementBy (walkKeysCount i) (float64 n)"

section \<open>Calls and the event catalogue\<close>

text \<open>
  \<open>event\<close> names the 28 rows of the event catalogue, \<open>call\<close> is one method call with
  its argument, and \<open>invoke\<close> dispatches a call to its method.
\<close>

datatype event =
    InsertCallEvent
  | InsertRecordCountEvent
  | InsertCallDurationEvent
  | InsertRecordDurationEvent
  | InsertQuorumFailureEvent
  | SelectCallEvent
  | SelectKeysEvent
  | SelectSendToEvent
  | SelectFirstResponseDurationEvent
  | SelectPartialErrorEvent
  | SelectBlockingDurationEvent
  | SelectOverheadDurationEvent
  | SelectDurationEvent
  | SelectSendAllPromotionEvent
  | SelectRetrievedEvent
  | SelectReturnedEvent
  | SelectRepairNeededEvent
  | DeleteCallEvent
  | DeleteRecordCountEvent
  | DeleteCallDurationEvent
  | DeleteRecordDurationEvent
  | DeleteQuorumFailureEvent
  | RepairCallEvent
  | RepairRequestEvent
  | RepairDiscardedEvent
  | RepairWriteSuccessEvent
  | RepairWriteFailureEvent
  | WalkKeysEvent

datatype call =
    CallInsertCall
  | CallInsertRecordCount go_int
  | CallInsertCallDuration Duration
  | CallInsertRecordDuration Duration
  | CallInsertQuorumFailure
  | CallSelectCall
  | CallSelectKeys go_int
  | CallSelectSendTo go_int
  | CallSelectFirstResponseDuration Duration
  | CallSelectPartialError
  | CallSelectBlockingDuration Duration
  | CallSelectOverheadDuration Duration
  | CallSelectDuration Duration
  | CallSelectSendAllPromotion
  | CallSelectRetrieved go_int
  | CallSelectReturned go_int
  | CallSelectRepairNeeded go_int
  | CallDeleteCall
  | CallDeleteRecordCount go_int
  | CallDeleteCallDuration Duration
  | CallDeleteRecordDuration Duration
  | CallDeleteQuorumFailure
  | CallRepairCall
  | CallRepairRequest go_int
  | CallRepairDiscarded go_int
  | CallRepairWriteSuccess go_int
  | CallRepairWriteFailure go_int
  | CallWalkKeys go_int

datatype arg = NoArg | CountArg go_int | DurationArg Duration

datatype metric_kind = CounterKind | HistogramKind

datatype arg_kind = NoArgument | CountArgument | DurationArgument

fun invoke :: "PrometheusInstrumentation \<Rightarrow> call \<Rightarrow> world \<Rightarrow> world" where
  "invoke i CallInsertCall = InsertCall i"
  | "invoke i (CallInsertRecordCount n) = InsertRecordCount i n"
  | "invoke i (CallInsertCallDuration d) = InsertCallDuration i d"
  | "invoke i (CallInsertRecordDuration d) = InsertRecordDuration i d"
  | "invoke i CallInsertQuorumFailure = InsertQuorumFailure i"
  | "invoke i CallSelectCall = SelectCall i"
  | "invoke i (CallSelectKeys n) = SelectKeys i n"
  | "invoke i (CallSelectSendTo n) = SelectSendTo i n"
  | "invoke i (CallSelectFirstResponseDuration d) = SelectFirstResponseDuration i d"
  | "invoke i CallSelectPartialError = SelectPartialError i"
  | "invoke i (CallSelectBlockingDuration d) = SelectBlockingDuration i d"
  | "invoke i (CallSelectOverheadDuration d) = SelectOverheadDuration i d"
  | "invoke i (CallSelectDuration d) = SelectDuration i d"
  | "invoke i CallSelectSendAllPromotion = SelectSendAllPromotion i"
  | "invoke i (CallSelectRetrieved n) = SelectRetrieved i n"
  | "invoke i (CallSelectReturned n) = SelectReturned i n"
  | "invoke i (CallSelectRepairNeeded n) = SelectRepairNeeded i n"
  | "invoke i CallDeleteCall = DeleteCall i"
  | "invoke i (CallDeleteRecordCount n) = DeleteRecordCount i n"
  | "invoke i (CallDeleteCallDuration d) = DeleteCallDuration i d"
  | "invoke i (CallDeleteRecordDuration d) = DeleteRecordDuration i d"
  | "invoke i CallDeleteQuorumFailure = DeleteQuorumFailure i"
  | "invoke i CallRepairCall = RepairCall i"
  | "invoke i (CallRepairRequest n) = RepairRequest i n"
  | "invoke i (CallRepairDiscarded n) = RepairDiscarded i n"
  | "invoke i (CallRepairWriteSuccess n) = RepairWriteSuccess i n"
  | "invoke i (CallRepairWriteFailure n) = RepairWriteFailure i n"
  | "invoke i (CallWalkKeys n) = WalkKeys i n"

text \<open>
  The event a call belongs to and the argument it carries.
\<close>

fun event_of :: "call \<Rightarrow> event" where
  "event_of CallInsertCall = InsertCallEvent"
  | "event_of (CallInsertRecordCount n) = InsertRecordCountEvent"
  | "event_of (CallInsertCallDuration d) = InsertCallDurationEvent"
  | "event_of (CallInsertRecordDuration d) = InsertRecordDurationEvent"
  | "event_of CallInsertQuorumFailure = InsertQuorumFailureEvent"
  | "event_of CallSelectCall = SelectCallEvent"
  | "event_of (CallSelectKeys n) = SelectKeysEvent"
  | "event_of (CallSelectSendTo n) = SelectSendToEvent"
  | "event_of (CallSelectFirstResponseDuration d) = SelectFirstResponseDurationEvent"
  | "event_of CallSelectPartialError = SelectPartialErrorEvent"
  | "event_of (CallSelectBlockingDuration d) = SelectBlockingDurationEvent"
  | "event_of (CallSelectOverheadDuration d) = SelectOverheadDurationEvent"
  | "event_of (CallSelectDuration d) = SelectDurationEvent"
  | "event_of CallSelectSendAllPromotion = SelectSendAllPromotionEvent"
  | "event_of (CallSelectRetrieved n) = SelectRetrievedEvent"
  | "event_of (CallSelectReturned n) = SelectReturnedEvent"
  | "event_of (CallSelectRepairNeeded n) = SelectRepairNeededEvent"
  | "event_of CallDeleteCall = DeleteCallEvent"
  | "event_of (CallDeleteRecordCount n) = DeleteRecordCountEvent"
  | "event_of (CallDeleteCallDuration d) = DeleteCallDurationEvent"
  | "event_of (CallDeleteRecordDuration d) = DeleteRecordDurationEvent"
  | "event_of CallDeleteQuorumFailure = DeleteQuorumFailureEvent"
  | "event_of CallRepairCall = RepairCallEvent"
  | "event_of (CallRepairRequest n) = RepairRequestEvent"
  | "event_of (CallRepairDiscarded n) = RepairDiscardedEvent"
  | "event_of (CallRepairWriteSuccess n) = RepairWriteSuccessEvent"
  | "event_of (CallRepairWriteFailure n) = RepairWriteFailureEvent"
  | "event_of (CallWalkKeys n) = WalkKeysEvent"

fun argument :: "call \<Rightarrow> arg" where
  "argument CallInsertCall = NoArg"
  | "argument (CallInsertRecordCount n) = CountArg n"
  | "argument (CallInsertCallDuration d) = DurationArg d"
  | "argument (CallInsertRecordDuration d) = DurationArg d"
  | "argument CallInsertQuorumFailure = NoArg"
  | "argument CallSelectCall = NoArg"
  | "argument (CallSelectKeys n) = CountArg n"
  | "argument (CallSelectSendTo n) = CountArg n"
  | "argument (CallSelectFirstResponseDuration d) = DurationArg d"
  | "argument CallSelectPartialError = NoArg"
  | "argument (CallSelectBlockingDuration d) = DurationArg d"
  | "argument (CallSelectOverheadDuration d) = DurationArg d"
  | "argument (CallSelectDuration d) = DurationArg d"
  | "argument CallSelectSendAllPromotion = NoArg"
  | "argument (CallSelectRetrieved n) = CountArg n"
  | "argument (CallSelectReturned n) = CountArg n"
  | "argument (CallSelectRepairNeeded n) = CountArg n"
  | "argument CallDeleteCall = NoArg"
  | "argument (CallDeleteRecordCount n) = CountArg n"
  | "argument (CallDeleteCallDuration d) = DurationArg d"
  | "argument (CallDeleteRecordDuration d) = DurationArg d"
  | "argument CallDeleteQuorumFailure = NoArg"
  | "argument CallRepairCall = NoArg"
  | "argument (CallRepairRequest n) = CountArg n"
  | "argument (CallRepairDiscarded n) = CountArg n"
  | "argument (CallRepairWriteSuccess n) = CountArg n"
  | "argument (CallRepairWriteFailure n) = CountArg n"
  | "argument (CallWalkKeys n) = CountArg n"

definition all_events :: "event list" where
  "all_events = [InsertCallEvent,
     InsertRecordCountEvent,
     InsertCallDurationEvent,
     InsertRecordDurationEvent,
     InsertQuorumFailureEvent,
     SelectCallEvent,
     SelectKeysEvent,
     SelectSendToEvent,
     SelectFirstResponseDurationEvent,
     SelectPartialErrorEvent,
     SelectBlockingDurationEvent,
     SelectOverheadDurationEvent,
     SelectDurationEvent,
     SelectSendAllPromotionEvent,
     SelectRetrievedEvent,
     SelectReturnedEvent,
     SelectRepairNeededEvent,
     DeleteCallEvent,
     DeleteRecordCountEvent,
     DeleteCallDurationEvent,
     DeleteRecordDurationEvent,
     DeleteQuorumFailureEvent,
     RepairCallEvent,
     RepairRequestEvent,
     RepairDiscardedEvent,
     RepairWriteSuccessEvent,
     RepairWriteFailureEvent,
     WalkKeysEvent]"

text \<open>
  The facade event catalogue of the specification (section 6), row by row: the metric name
  suffix, the metric type and the argument of every event. These three functions follow the
  specification's table, not the code.
\<close>

fun metric_suffix :: "event \<Rightarrow> string" where
  "metric_suffix InsertCallEvent = ''insert_call_count''"
  | "metric_suffix InsertRecordCountEvent = ''insert_record_count''"
  | "metric_suffix InsertCallDurationEvent = ''insert_call_duration_nanoseconds''"
  | "metric_suffix InsertRecordDurationEvent = ''insert_record_duration_nanoseconds''"
  | "metric_suffix InsertQuorumFailureEvent = ''insert_quorum_failure_count''"
  | "metric_suffix SelectCallEvent = ''select_call_count''"
  | "metric_suffix SelectKeysEvent = ''select_keys_count''"
  | "metric_suffix SelectSendToEvent = ''select_send_to_count''"
  | "metric_suffix SelectFirstResponseDurationEvent = ''select_first_response_duration_nanoseconds''"
  | "metric_suffix SelectPartialErrorEvent = ''select_partial_error_count''"
  | "metric_suffix SelectBlockingDurationEvent = ''select_blocking_duration_nanoseconds''"
  | "metric_suffix SelectOverheadDurationEvent = ''select_overhead_duration_nanoseconds''"
  | "metric_suffix SelectDurationEvent = ''select_duration_nanoseconds''"
  | "metric_suffix SelectSendAllPromotionEvent = ''select_send_all_promotion_count''"
  | "metric_suffix SelectRetrievedEvent = ''select_retrieved_count''"
  | "metric_suffix SelectReturnedEvent = ''select_returned_count''"
  | "metric_suffix SelectRepairNeededEvent = ''select_repair_needed_count''"
  | "metric_suffix DeleteCallEvent = ''delete_call_count''"
  | "metric_suffix DeleteRecordCountEvent = ''delete_record_count''"
  | "metric_suffix DeleteCallDurationEvent = ''delete_call_duration_nanoseconds''"
  | "metric_suffix DeleteRecordDurationEvent = ''delete_record_duration_nanoseconds''"
  | "metric_suffix DeleteQuorumFailureEvent = ''delete_quorum_failure_count''"
  | "metric_suffix RepairCallEvent = ''repair_call_count''"
  | "metric_suffix RepairRequestEvent = ''repair_request_count''"
  | "metric_suffix RepairDiscardedEvent = ''repair_discarded_count''"
  | "metric_suffix RepairWriteSuccessEvent = ''repair_write_success_count''"
  | "metric_suffix RepairWriteFailureEvent = ''repair_write_failure_count''"
  | "metric_suffix WalkKeysEvent = ''walk_keys_count''"

fun metric_type :: "event \<Rightarrow> metric_kind" where
  "metric_type InsertCallEvent = CounterKind"
  | "metric_type InsertRecordCountEvent = CounterKind"
  | "metric_type InsertCallDurationEvent = HistogramKind"
  | "metric_type InsertRecordDurationEvent = HistogramKind"
  | "metric_type InsertQuorumFailureEvent = CounterKind"
  | "metric_type SelectCallEvent = CounterKind"
  | "metric_type SelectKeysEvent = CounterKind"
  | "metric_type SelectSendToEvent = CounterKind"
  | "metric_type SelectFirstResponseDurationEvent = HistogramKind"
  | "metric_type SelectPartialErrorEvent = CounterKind"
  | "metric_type SelectBlockingDurationEvent = HistogramKind"
  | "metric_type SelectOverheadDurationEvent = HistogramKind"
  | "metric_type SelectDurationEvent = HistogramKind"
  | "metric_type SelectSendAllPromotionEvent = CounterKind"
  | "metric_type SelectRetrievedEvent = CounterKind"
  | "metric_type SelectReturnedEvent = CounterKind"
  | "metric_type SelectRepairNeededEvent = CounterKind"
  | "metric_type DeleteCallEvent = CounterKind"
  | "metric_type DeleteRecordCountEvent = CounterKind"
  | "metric_type DeleteCallDurationEvent = HistogramKind"
  | "metric_type DeleteRecordDurationEvent = HistogramKind"
  | "metric_type DeleteQuorumFailureEvent = CounterKind"
  | "metric_type RepairCallEvent = CounterKind"
  | "metric_type RepairRequestEvent = CounterKind"
  | "metric_type RepairDiscardedEvent = CounterKind"
  | "metric_type RepairWriteSuccessEvent = CounterKind"
  | "metric_type RepairWriteFailureEvent = CounterKind"
  | "metric_type WalkKeysEvent = CounterKind"

fun argument_kind :: "event \<Rightarrow> arg_kind" where
  "argument_kind InsertCallEvent = NoArgument"
  | "argument_kind InsertRecordCountEvent = CountArgument"
  | "argument_kind InsertCallDurationEvent = DurationArgument"
  | "argument_kind InsertRecordDurationEvent = DurationArgument"
  | "argument_kind InsertQuorumFailureEvent = NoArgument"
  | "argument_kind SelectCallEvent = NoArgument"
  | "argument_kind SelectKeysEvent = CountArgument"
  | "argument_kind SelectSendToEvent = CountArgument"
  | "argument_kind SelectFirstResponseDurationEvent = DurationArgument"
  | "argument_kind SelectPartialErrorEvent = NoArgument"
  | "argument_kind SelectBlockingDurationEvent = DurationArgument"
  | "argument_kind SelectOverheadDurationEvent = DurationArgument"
  | "argument_kind SelectDurationEvent = DurationArgument"
  | "argument_kind SelectSendAllPromotionEvent = NoArgument"
  | "argument_kind SelectRetrievedEvent = CountArgument"
  | "argument_kind SelectReturnedEvent = CountArgument"
  | "argument_kind SelectRepairNeededEvent = CountArgument"
  | "argument_kind DeleteCallEvent = NoArgument"
  | "argument_kind DeleteRecordCountEvent = CountArgument"
  | "argument_kind DeleteCallDurationEvent = DurationArgument"
  | "argument_kind DeleteRecordDurationEvent = DurationArgument"
  | "argument_kind DeleteQuorumFailureEvent = NoArgument"
  | "argument_kind RepairCallEvent = NoArgument"
  | "argument_kind RepairRequestEvent = CountArgument"
  | "argument_kind RepairDiscardedEvent = CountArgument"
  | "argument_kind RepairWriteSuccessEvent = CountArgument"
  | "argument_kind RepairWriteFailureEvent = CountArgument"
  | "argument_kind WalkKeysEvent = CountArgument"


text \<open>
  A sequence of facade calls, and the whole life of one facade on a fresh process: construct
  it with a prefix, then make the calls.
\<close>

definition run :: "PrometheusInstrumentation \<Rightarrow> call list \<Rightarrow> world \<Rightarrow> world" where
  "run i cs w = fold (invoke i) cs w"

definition scenario :: "string \<Rightarrow> call list \<Rightarrow> world option" where
  "scenario pfx cs = map_option (\<lambda>(i, w). run i cs w) (New pfx init_world)"

section \<open>Notions used to state the properties\<close>

text \<open>
  \<open>bound_metric i e\<close> is the struct field that the method of event \<open>e\<close> reads, as a
  registry metric. \<open>update_metric m v\<close> is one update of the object \<open>m\<close> by the amount
  \<open>v\<close>: a counter's value goes up by \<open>v\<close>, a histogram records the sample \<open>v\<close>.
\<close>

fun bound_metric :: "PrometheusInstrumentation \<Rightarrow> event \<Rightarrow> Metric" where
  "bound_metric i InsertCallEvent = CounterMetric (insertCallCount i)"
  | "bound_metric i InsertRecordCountEvent = CounterMetric (insertRecordCount i)"
  | "bound_metric i InsertCallDurationEvent = HistogramMetric (insertCallDuration i)"
  | "bound_metric i InsertRecordDurationEvent = HistogramMetric (insertRecordDuration i)"
  | "bound_metric i InsertQuorumFailureEvent = CounterMetric (insertQuorumFailureCount i)"
  | "bound_metric i SelectCallEvent = CounterMetric (selectCallCount i)"
  | "bound_metric i SelectKeysEvent = CounterMetric (selectKeysCount i)"
  | "bound_metric i SelectSendToEvent = CounterMetric (selectSendToCount i)"
  | "bound_metric i SelectFirstResponseDurationEvent = HistogramMetric (selectFirstResponseDuration i)"
  | "bound_metric i SelectPartialErrorEvent = CounterMetric (selectPartialErrorCount i)"
  | "bound_metric i SelectBlockingDurationEvent = HistogramMetric (selectBlockingDuration i)"
  | "bound_metric i SelectOverheadDurationEvent = HistogramMetric (selectOverheadDuration i)"
  | "bound_metric i SelectDurationEvent = HistogramMetric (selectDuration i)"
  | "bound_metric i SelectSendAllPromotionEvent = CounterMetric (selectSendAllPromotionCount i)"
  | "bound_metric i SelectRetrievedEvent = CounterMetric (selectRetrievedCount i)"
  | "bound_metric i SelectReturnedEvent = CounterMetric (selectReturnedCount i)"
  | "bound_metric i SelectRepairNeededEvent = CounterMetric (selectRepairNeededCount i)"
  | "bound_metric i DeleteCallEvent = CounterMetric (deleteCallCount i)"
  | "bound_metric i DeleteRecordCountEvent = CounterMetric (deleteRecordCount i)"
  | "bound_metric i DeleteCallDurationEvent = HistogramMetric (deleteCallDuration i)"
  | "bound_metric i DeleteRecordDurationEvent = HistogramMetric (deleteRecordDuration i)"
  | "bound_metric i DeleteQuorumFailureEvent = CounterMetric (deleteQuorumFailureCount i)"
  | "bound_metric i RepairCallEvent = CounterMetric (repairCallCount i)"
  | "bound_metric i RepairRequestEvent = CounterMetric (repairRequestCount i)"
  | "bound_metric i RepairDiscardedEvent = CounterMetric (repairDiscardedCount i)"
  | "bound_metric i RepairWriteSuccessEvent = CounterMetric (repairWriteSuccessCount i)"
  | "bound_metric i RepairWriteFailureEvent = CounterMetric (repairWriteFailureCount i)"
  | "bound_metric i WalkKeysEvent = CounterMetric (walkKeysCount i)"

fun update_metric :: "Metric \<Rightarrow> float64 \<Rightarrow> world \<Rightarrow> world" where
  "update_metric (CounterMetric c) v w =
     w\<lparr>counters := (counters w)[counter_addr c := counters w ! counter_addr c + v]\<rparr>"
| "update_metric (HistogramMetric h) v w =
     w\<lparr>histograms := (histograms w)[histogram_addr h := observe v (histograms w ! histogram_addr h)]\<rparr>"

text \<open>
  \<open>arg_value\<close> is the number the caller supplies (1 for a method without argument),
  \<open>delta\<close> the \<^verbatim>\<open>float64\<close> the method hands to the library for it.
\<close>

fun arg_value :: "arg \<Rightarrow> int" where
  "arg_value NoArg = 1"
| "arg_value (CountArg n) = sint n"
| "arg_value (DurationArg d) = sint (Nanoseconds d)"

fun delta :: "arg \<Rightarrow> float64" where
  "delta NoArg = 1"
| "delta (CountArg n) = float64 n"
| "delta (DurationArg d) = float64 (Nanoseconds d)"

fun kind_of_arg :: "arg \<Rightarrow> arg_kind" where
  "kind_of_arg NoArg = NoArgument"
| "kind_of_arg (CountArg n) = CountArgument"
| "kind_of_arg (DurationArg d) = DurationArgument"

fun kind_of_metric :: "Metric \<Rightarrow> metric_kind" where
  "kind_of_metric (CounterMetric c) = CounterKind"
| "kind_of_metric (HistogramMetric h) = HistogramKind"

fun allocated :: "world \<Rightarrow> Metric \<Rightarrow> bool" where
  "allocated w (CounterMetric c) = (counter_addr c < length (counters w))"
| "allocated w (HistogramMetric h) = (histogram_addr h < length (histograms w))"

definition counter_value :: "world \<Rightarrow> Counter \<Rightarrow> float64" where
  "counter_value w c = counters w ! counter_addr c"

definition snapshot :: "world \<Rightarrow> Histogram \<Rightarrow> histogram_object" where
  "snapshot w h = histograms w ! histogram_addr h"

datatype reading = CounterReading float64 | HistogramReading histogram_object

fun metric_state :: "world \<Rightarrow> Metric \<Rightarrow> reading" where
  "metric_state w (CounterMetric c) = CounterReading (counter_value w c)"
| "metric_state w (HistogramMetric h) = HistogramReading (snapshot w h)"

fun metric_total :: "world \<Rightarrow> Metric \<Rightarrow> float64" where
  "metric_total w (CounterMetric c) = counter_value w c"
| "metric_total w (HistogramMetric h) = sample_sum (snapshot w h)"

definition state_by_name :: "world \<Rightarrow> string \<Rightarrow> reading option" where
  "state_by_name w name = map_option (metric_state w) (lookup_metric w name)"

definition read_counter :: "string \<Rightarrow> world \<Rightarrow> float64 option" where
  "read_counter name w =
     (case lookup_metric w name of
        Some (CounterMetric c) \<Rightarrow> Some (counter_value w c)
      | _ \<Rightarrow> None)"

definition read_histogram :: "string \<Rightarrow> world \<Rightarrow> histogram_object option" where
  "read_histogram name w =
     (case lookup_metric w name of
        Some (HistogramMetric h) \<Rightarrow> Some (snapshot w h)
      | _ \<Rightarrow> None)"

text \<open>
  What one call adds to the value of the counter \<open>k\<close>.
\<close>

definition contribution :: "PrometheusInstrumentation \<Rightarrow> Counter \<Rightarrow> call \<Rightarrow> float64" where
  "contribution i k c =
     (if bound_metric i (event_of c) = CounterMetric k then delta (argument c) else 0)"

text \<open>
  \<open>New\<close> in closed form: \<open>facade_at nc nh\<close> is the struct literal when the store holds
  \<open>nc\<close> counters and \<open>nh\<close> histograms, \<open>registrations\<close> the 28 calls of
  \<^verbatim>\<open>prometheus.Register\<close> in order, and \<open>register_all\<close> runs such a list.
\<close>

definition facade_at :: "nat \<Rightarrow> nat \<Rightarrow> PrometheusInstrumentation" where
  "facade_at nc nh = \<lparr>
       insertCallCount = CounterRef (nc + 0),
       insertRecordCount = CounterRef (nc + 1),
       insertCallDuration = HistogramRef (nh + 0),
       insertRecordDuration = HistogramRef (nh + 1),
       insertQuorumFailureCount = CounterRef (nc + 2),
       selectCallCount = CounterRef (nc + 3),
       selectKeysCount = CounterRef (nc + 4),
       selectSendToCount = CounterRef (nc + 5),
       selectFirstResponseDuration = HistogramRef (nh + 2),
       selectPartialErrorCount = CounterRef (nc + 6),
       selectBlockingDuration = HistogramRef (nh + 3),
       selectOverheadDuration = HistogramRef (nh + 4),
       selectDuration = HistogramRef (nh + 5),
       selectSendAllPromotionCount = CounterRef (nc + 7),
       selectRetrievedCount = CounterRef (nc + 8),
       selectReturnedCount = CounterRef (nc + 9),
       selectRepairNeededCount = CounterRef (nc + 10),
       deleteCallCount = CounterRef (nc + 11),
       deleteRecordCount = CounterRef (nc + 12),
       deleteCallDuration = HistogramRef (nh + 6),
       deleteRecordDuration = HistogramRef (nh + 7),
       deleteQuorumFailureCount = CounterRef (nc + 13),
       repairCallCount = CounterRef (nc + 14),
       repairRequestCount = CounterRef (nc + 15),
       repairDiscardedCount = CounterRef (nc + 16),
       repairWriteSuccessCount = CounterRef (nc + 17),
       repairWriteFailureCount = CounterRef (nc + 18),
       walkKeysCount = CounterRef (nc + 19) \<rparr>"

definition registrations :: "string \<Rightarrow> PrometheusInstrumentation \<Rightarrow> (string \<times> string \<times> Metric) list" where
  "registrations pfx i = [
     (pfx @ ''insert_call_count'',
      ''How many insert calls have been made.'',
      CounterMetric (insertCallCount i)),
     (pfx @ ''insert_record_count'',
      ''How many records have been inserted.'',
      CounterMetric (insertRecordCount i)),
     (pfx @ ''insert_call_duration_nanoseconds'',
      ''Insert duration per-call.'',
      HistogramMetric (insertCallDuration i)),
     (pfx @ ''insert_record_duration_nanoseconds'',
      ''Insert duration per-record.'',
      HistogramMetric (insertRecordDuration i)),
     (pfx @ ''insert_quorum_failure_count'',
      ''Insert quorum failure count.'',
      CounterMetric (insertQuorumFailureCount i)),
     (pfx @ ''select_call_count'',
      ''How many select calls have been made.'',
      CounterMetric (selectCallCount i)),
     (pfx @ ''select_keys_count'',
      ''How many keys have been selected.'',
      CounterMetric (selectKeysCount i)),
     (pfx @ ''select_send_to_count'',
      ''How many clusters have received select calls.'',
      CounterMetric (selectSendToCount i)),
     (pfx @ ''select_first_response_duration_nanoseconds'',
      ''Select first response duration.'',
      HistogramMetric (selectFirstResponseDuration i)),
     (pfx @ ''select_partial_error_count'',
      ''How many partial errors have occurred in selects.'',
      CounterMetric (selectPartialErrorCount i)),
     (pfx @ ''select_blocking_duration_nanoseconds'',
      ''Select blocking duration.'',
      HistogramMetric (selectBlockingDuration i)),
     (pfx @ ''select_overhead_duration_nanoseconds'',
      ''Select overhead duration.'',
      HistogramMetric (selectOverheadDuration i)),
     (pfx @ ''select_duration_nanoseconds'',
      ''Overall select duration.'',
      HistogramMetric (selectDuration i)),
     (pfx @ ''select_send_all_promotion_count'',
      ''How many select requests were promoted to a send-all, in appropriate read strategies.'',
      CounterMetric (selectSendAllPromotionCount i)),
     (pfx @ ''select_retrieved_count'',
      ''How many key-score-member tuples have been retrieved from clusters by select calls.'',
      CounterMetric (selectRetrievedCount i)),
     (pfx @ ''select_returned_count'',
      ''How many key-score-member tuples have been returned to clients by select calls.'',
      CounterMetric (selectReturnedCount i)),
     (pfx @ ''select_repair_needed_count'',
      ''How many repairs have been detected and requested by select calls.'',
      CounterMetric (selectRepairNeededCount i)),
     (pfx @ ''delete_call_count'',
      ''How many delete calls have been made.'',
      CounterMetric (deleteCallCount i)),
     (pfx @ ''delete_record_count'',
      ''How many records have been deleted in delete calls.'',
      CounterMetric (deleteRecordCount i)),
     (pfx @ ''delete_call_duration_nanoseconds'',
      ''Delete duration, per-call.'',
      HistogramMetric (deleteCallDuration i)),
     (pfx @ ''delete_record_duration_nanoseconds'',
      ''Delete duration, per-record.'',
      HistogramMetric (deleteRecordDuration i)),
     (pfx @ ''delete_quorum_failure_count'',
      ''Delete quorum failure count.'',
      CounterMetric (deleteQuorumFailureCount i)),
     (pfx @ ''repair_call_count'',
      ''How many repair calls have been made.'',
      CounterMetric (repairCallCount i)),
     (pfx @ ''repair_request_count'',
      ''How many key-member tuples have been repaired.'',
      CounterMetric (repairRequestCount i)),
     (pfx @ ''repair_discarded_count'',
      ''How many repair calls have been discarded due to rate or buffer limits.'',
      CounterMetric (repairDiscardedCount i)),
     (pfx @ ''repair_write_success_count'',
      ''Repair write success count.'',
      CounterMetric (repairWriteSuccessCount i)),
     (pfx @ ''repair_write_failure_count'',
      ''Repair write failure count.'',
      CounterMetric (repairWriteFailureCount i)),
     (pfx @ ''walk_keys_count'',
      ''How many keys have been walked by the walker process.'',
      CounterMetric (walkKeysCount i))]"
fun register_all :: "(string \<times> string \<times> Metric) list \<Rightarrow> world \<Rightarrow> world option" where
  "register_all [] w = Some w"
| "register_all ((name, docstring, metric) # rs) w =
     Option.bind (Register name docstring metric w) (register_all rs)"

text \<open>
  The registrations a call of \<open>New\<close> appended to the registry.
\<close>

definition newly_registered :: "world \<Rightarrow> world \<Rightarrow> (string \<times> string \<times> Metric) list" where
  "newly_registered w0 w = drop (length (registry w0)) (registry w)"

section \<open>The conversion to float64\<close>

lemma round_half_even_nonneg: "0 \<le> a \<Longrightarrow> 0 \<le> round_half_even a e"
  by (simp add: round_half_even_def Let_def pos_imp_zdiv_nonneg_iff)

lemma round_half_even_pos:
  assumes "2 ^ e \<le> a"
  shows "0 < round_half_even a e"
proof -
  have "(2::int) ^ e div 2 ^ e \<le> a div 2 ^ e"
    using assms by (intro zdiv_mono1) simp_all
  then have "1 \<le> a div 2 ^ e" by simp
  then show ?thesis by (simp add: round_half_even_def Let_def)
qed

lemma float64_of_int_exact:
  assumes "\<bar>n\<bar> \<le> 2 ^ 53"
  shows "float64_of_int n = of_int n"
proof (cases "\<bar>n\<bar> < 2 ^ 53")
  case True
  then have "bitlen \<bar>n\<bar> \<le> 53"
    by (simp add: bitlen_le_iff_power)
  then have e: "nat (bitlen \<bar>n\<bar> - 53) = 0" by simp
  have "sgn n * (round_half_even \<bar>n\<bar> 0 * 2 ^ 0) = n"
    by (simp add: round_half_even_def Let_def mult_sgn_abs)
  then show ?thesis
    unfolding float64_of_int_def Let_def e by (simp only:)
next
  case False
  with assms have a: "\<bar>n\<bar> = 2 ^ 53" by simp
  have "bitlen (2 ^ 53 + 0) = int (53 + 1)"
    by (rule bitlen_twopow_add_eq) simp_all
  then have e: "nat (bitlen \<bar>n\<bar> - 53) = 1" by (simp add: a)
  have r: "round_half_even \<bar>n\<bar> 1 = 2 ^ 52"
    unfolding a by (simp add: round_half_even_def Let_def)
  have "sgn n * (2 ^ 52 * 2 ^ 1) = n"
    using a mult_sgn_abs [of n] by simp
  then have "sgn n * (round_half_even \<bar>n\<bar> (nat (bitlen \<bar>n\<bar> - 53)) *
      2 ^ nat (bitlen \<bar>n\<bar> - 53)) = n"
    unfolding e r .
  then show ?thesis
    unfolding float64_of_int_def Let_def by (simp only:)
qed

lemma float64_of_int_nonneg:
  assumes "0 \<le> n"
  shows "0 \<le> float64_of_int n"
proof -
  have "0 \<le> round_half_even \<bar>n\<bar> (nat (bitlen \<bar>n\<bar> - 53))"
    by (rule round_half_even_nonneg) simp
  then have "0 \<le> sgn n * (round_half_even \<bar>n\<bar> (nat (bitlen \<bar>n\<bar> - 53)) * 2 ^ nat (bitlen \<bar>n\<bar> - 53))"
    using assms by (simp add: sgn_if)
  then show ?thesis
    unfolding float64_of_int_def Let_def by (simp only: of_int_0_le_iff)
qed

lemma float64_of_int_neg:
  assumes "n < 0"
  shows "float64_of_int n < 0"
proof -
  define a where "a = \<bar>n\<bar>"
  define e where "e = nat (bitlen a - 53)"
  have pos: "0 < a" using assms by (simp add: a_def)
  have "(2::int) ^ e \<le> 2 ^ nat (bitlen a - 1)"
    by (rule power_increasing) (simp_all add: e_def)
  also have "\<dots> \<le> a" using bitlen_bounds [OF pos] by simp
  finally have "0 < round_half_even a e" by (rule round_half_even_pos)
  then have "0 < round_half_even a e * 2 ^ e" by simp
  then have "sgn n * (round_half_even a e * 2 ^ e) < 0"
    using assms by (simp add: sgn_if)
  then show ?thesis
    unfolding float64_of_int_def Let_def a_def [symmetric] e_def [symmetric]
    by (simp only: of_int_less_0_iff)
qed

section \<open>Construction in closed form\<close>

lemma event_in_all_events: "e \<in> set all_events"
  by (cases e) (simp_all add: all_events_def)

lemma set_all_events: "set all_events = UNIV"
  using event_in_all_events by auto

lemma register_all_bind:
  "Option.bind (register_all ((n, d, m) # rs) w) f =
   Option.bind (Register n d m w) (\<lambda>w'. Option.bind (register_all rs w') f)"
  by (cases "Register n d m w") simp_all

lemma New_alloc:
  "New p w0 =
     Option.bind
       (register_all (registrations p (facade_at (length (counters w0)) (length (histograms w0))))
          (w0\<lparr>histograms := histograms w0 @ replicate 8 empty_histogram,
              counters := counters w0 @ replicate 20 0\<rparr>))
       (\<lambda>w. Some (facade_at (length (counters w0)) (length (histograms w0)), w))"
  unfolding registrations_def register_all_bind
  by (simp add: New_def NewCounter_def NewDefaultHistogram_def facade_at_def Let_def numeral_eq_Suc)

lemma register_all_eq:
  "register_all rs w =
     (if distinct (map fst rs) \<and> set (map fst rs) \<inter> set (registered_names w) = {}
      then Some (w\<lparr>registry := registry w @ rs\<rparr>) else None)"
proof (induction rs arbitrary: w)
  case Nil
  show ?case by simp
next
  case (Cons r rs)
  obtain n d m where r: "r = (n, d, m)" by (cases r)
  show ?case
    unfolding r
    by (auto simp: Register_def Cons.IH registered_names_def)
qed


lemma distinct_suffixes: "distinct (map metric_suffix all_events)"
  by (simp add: all_events_def)

lemma distinct_names: "distinct (map (\<lambda>e. p @ metric_suffix e) all_events)"
proof -
  have "distinct (map ((@) p) (map metric_suffix all_events))"
    by (rule distinct_map [THEN iffD2]) (simp add: distinct_suffixes inj_on_def)
  then show ?thesis by (simp add: comp_def)
qed

lemma registrations_names:
  "map fst (registrations p i) = map (\<lambda>e. p @ metric_suffix e) all_events"
  by (simp add: registrations_def all_events_def)

lemma registrations_metrics:
  "map (\<lambda>r. snd (snd r)) (registrations p i) = map (bound_metric i) all_events"
  by (simp add: registrations_def all_events_def)

lemma length_registrations: "length (registrations p i) = 28"
  by (simp add: registrations_def)

lemma New_eq:
  "New p w0 =
     (if \<exists>e. p @ metric_suffix e \<in> set (registered_names w0) then None
      else Some (facade_at (length (counters w0)) (length (histograms w0)),
                 w0\<lparr>histograms := histograms w0 @ replicate 8 empty_histogram,
                     counters := counters w0 @ replicate 20 0,
                     registry := registry w0 @
                       registrations p (facade_at (length (counters w0)) (length (histograms w0)))\<rparr>))"
proof -
  have "(set (map fst (registrations p i)) \<inter> set (registered_names w0) = {}) =
        (\<not> (\<exists>e. p @ metric_suffix e \<in> set (registered_names w0)))" for i
    unfolding registrations_names using set_all_events by auto
  then show ?thesis
    by (simp add: New_alloc register_all_eq registrations_names distinct_names registered_names_def)
qed

lemma lookup_registration:
  "map_of (registrations p i) (p @ metric_suffix e) = Some (d, m) \<Longrightarrow> m = bound_metric i e"
  by (cases e) (simp_all add: registrations_def)

lemma float64_exact: "\<bar>sint x\<bar> \<le> 2 ^ 53 \<Longrightarrow> float64 x = of_int (sint x)"
  by (simp add: float64_def float64_of_int_exact)

lemma float64_nonneg: "0 \<le> sint x \<Longrightarrow> 0 \<le> float64 x"
  by (simp add: float64_def float64_of_int_nonneg)

lemma float64_neg: "sint x < 0 \<Longrightarrow> float64 x < 0"
  by (simp add: float64_def float64_of_int_neg)

lemma delta_exact: "\<bar>arg_value a\<bar> \<le> 2 ^ 53 \<Longrightarrow> delta a = of_int (arg_value a)"
  by (cases a) (simp_all add: float64_exact)

lemma delta_nonneg: "0 \<le> arg_value a \<Longrightarrow> 0 \<le> delta a"
  by (cases a) (simp_all add: float64_nonneg)

lemma delta_neg: "arg_value a < 0 \<Longrightarrow> delta a < 0"
  by (cases a) (simp_all add: float64_neg)

section \<open>The methods and the store\<close>

lemmas method_defs =
  InsertCall_def InsertRecordCount_def InsertCallDuration_def InsertRecordDuration_def
  InsertQuorumFailure_def SelectCall_def SelectKeys_def SelectSendTo_def
  SelectFirstResponseDuration_def SelectPartialError_def SelectBlockingDuration_def
  SelectOverheadDuration_def SelectDuration_def SelectSendAllPromotion_def
  SelectRetrieved_def SelectReturned_def SelectRepairNeeded_def DeleteCall_def
  DeleteRecordCount_def DeleteCallDuration_def DeleteRecordDuration_def
  DeleteQuorumFailure_def RepairCall_def RepairRequest_def RepairDiscarded_def
  RepairWriteSuccess_def RepairWriteFailure_def WalkKeys_def

lemma invoke_update:
  "invoke i c w = update_metric (bound_metric i (event_of c)) (delta (argument c)) w"
  by (cases c) (simp_all add: method_defs Increment_def IncrementBy_def Add_def)

lemma kind_bound_metric: "kind_of_metric (bound_metric i e) = metric_type e"
  by (cases e) simp_all

lemma kind_argument: "kind_of_arg (argument c) = argument_kind (event_of c)"
  by (cases c) simp_all

lemma update_metric_registry: "registry (update_metric m v w) = registry w"
  by (cases m) simp_all

lemma update_metric_counters_length:
  "length (counters (update_metric m v w)) = length (counters w)"
  by (cases m) simp_all

lemma update_metric_histograms_length:
  "length (histograms (update_metric m v w)) = length (histograms w)"
  by (cases m) simp_all

lemma update_metric_set_registry:
  "update_metric m v (w\<lparr>registry := r\<rparr>) = (update_metric m v w)\<lparr>registry := r\<rparr>"
  by (cases m) simp_all

lemma run_Nil: "run i [] w = w"
  by (simp add: run_def)

lemma run_Cons: "run i (c # cs) w = run i cs (invoke i c w)"
  by (simp add: run_def)

lemma run_append: "run i (cs @ cs') w = run i cs' (run i cs w)"
  by (simp add: run_def)

lemma run_registry: "registry (run i cs w) = registry w"
  by (induction cs arbitrary: w) (simp_all add: run_Nil run_Cons invoke_update update_metric_registry)

lemma run_counters_length: "length (counters (run i cs w)) = length (counters w)"
  by (induction cs arbitrary: w)
    (simp_all add: run_Nil run_Cons invoke_update update_metric_counters_length)

lemma run_histograms_length: "length (histograms (run i cs w)) = length (histograms w)"
  by (induction cs arbitrary: w)
    (simp_all add: run_Nil run_Cons invoke_update update_metric_histograms_length)

lemma lookup_metric_run: "lookup_metric (run i cs w) name = lookup_metric w name"
  by (simp add: lookup_metric_def run_registry)

lemma allocated_run: "allocated (run i cs w) m = allocated w m"
  by (cases m) (simp_all add: run_counters_length run_histograms_length)

lemma New_SomeD:
  assumes "New p w0 = Some (i, w)"
  shows "p @ metric_suffix e \<notin> set (registered_names w0)"
    and "i = facade_at (length (counters w0)) (length (histograms w0))"
    and "registry w = registry w0 @ registrations p i"
    and "counters w = counters w0 @ replicate 20 0"
    and "histograms w = histograms w0 @ replicate 8 empty_histogram"
  using assms by (auto simp: New_eq split: if_splits)

lemma map_of_registrations:
  "\<exists>d. map_of (registrations p i) (p @ metric_suffix e) = Some (d, bound_metric i e)"
  by (cases e) (simp_all add: registrations_def)

lemma New_lookup:
  assumes "New p w0 = Some (i, w)"
  shows "lookup_metric w (p @ metric_suffix e) = Some (bound_metric i e)"
proof -
  have "p @ metric_suffix e \<notin> fst ` set (registry w0)"
    using New_SomeD(1) [OF assms] by (simp add: registered_names_def)
  then have "map_of (registry w0) (p @ metric_suffix e) = None"
    by (simp add: map_of_eq_None_iff)
  moreover obtain d where "map_of (registrations p i) (p @ metric_suffix e) = Some (d, bound_metric i e)"
    using map_of_registrations by blast
  ultimately show ?thesis
    by (simp add: lookup_metric_def New_SomeD(3) [OF assms] map_add_def)
qed

lemma distinct_bound_metric_facade_at:
  "distinct (map (bound_metric (facade_at nc nh)) all_events)"
  by (simp add: all_events_def facade_at_def)

lemma bound_metric_inj:
  assumes "New p w0 = Some (i, w)" and "bound_metric i e = bound_metric i e'"
  shows "e = e'"
proof -
  have "inj_on (bound_metric i) (set all_events)"
    using distinct_bound_metric_facade_at New_SomeD(2) [OF assms(1)]
    by (simp add: distinct_map)
  then show ?thesis
    using assms(2) by (simp add: set_all_events inj_on_def)
qed

lemma New_allocated:
  assumes "New p w0 = Some (i, w)"
  shows "allocated w (bound_metric i e)"
  by (cases e) (simp_all add: New_SomeD(2,4,5) [OF assms] facade_at_def)

lemma New_test: "\<exists>i w. New ''test_'' init_world = Some (i, w)"
  by (simp add: New_eq init_world_def registered_names_def)

lemma counter_addr_eq: "(counter_addr c = counter_addr k) = (c = k)"
  by (cases c; cases k) simp

lemma histogram_addr_eq: "(histogram_addr h = histogram_addr g) = (h = g)"
  by (cases h; cases g) simp

lemma counter_value_update_metric:
  assumes "counter_addr k < length (counters w)"
  shows "counter_value (update_metric m v w) k =
         counter_value w k + (if m = CounterMetric k then v else 0)"
proof (cases m)
  case (CounterMetric c)
  show ?thesis
  proof (cases "c = k")
    case True
    with assms show ?thesis by (simp add: CounterMetric counter_value_def)
  next
    case False
    then show ?thesis by (simp add: CounterMetric counter_value_def counter_addr_eq)
  qed
next
  case (HistogramMetric h)
  then show ?thesis by (simp add: counter_value_def)
qed

lemma counter_value_run:
  assumes "counter_addr k < length (counters w)"
  shows "counter_value (run i cs w) k = counter_value w k + sum_list (map (contribution i k) cs)"
  using assms
proof (induction cs arbitrary: w)
  case Nil
  show ?case by (simp add: run_Nil)
next
  case (Cons c cs)
  have len: "counter_addr k < length (counters (invoke i c w))"
    using Cons.prems by (simp add: invoke_update update_metric_counters_length)
  have "counter_value (invoke i c w) k = counter_value w k + contribution i k c"
    using Cons.prems by (simp add: invoke_update counter_value_update_metric contribution_def)
  with Cons.IH [OF len] show ?case by (simp add: run_Cons)
qed

lemma New_counter_zero:
  assumes "New p w0 = Some (i, w)" and "bound_metric i e = CounterMetric k"
  shows "counter_value w k = 0" and "counter_addr k < length (counters w)"
  using assms(2)
  by (cases e; auto simp: New_SomeD(2) [OF assms(1)] New_SomeD(4) [OF assms(1)] facade_at_def
      counter_value_def nth_append)+

lemma contribution_nonneg: "0 \<le> arg_value (argument c) \<Longrightarrow> 0 \<le> contribution i k c"
  by (simp add: contribution_def delta_nonneg)

lemma count_event_counter:
  "argument_kind e = CountArgument \<Longrightarrow> \<exists>k. bound_metric i e = CounterMetric k"
  by (cases e) simp_all

lemma sum_list_delta_counts:
  assumes "\<forall>n\<in>set ks. \<bar>sint n\<bar> \<le> 2 ^ 53"
  shows "sum_list (map delta (map CountArg ks)) = of_int (\<Sum>n\<leftarrow>ks. sint n)"
  using assms by (induction ks) (simp_all add: float64_exact)

lemma metric_state_update_other:
  "m \<noteq> m' \<Longrightarrow> metric_state (update_metric m' v w) m = metric_state w m"
  by (cases m; cases m') (simp_all add: counter_value_def snapshot_def counter_addr_eq histogram_addr_eq)

lemma metric_total_update:
  "allocated w m \<Longrightarrow> metric_total (update_metric m v w) m = metric_total w m + v"
  by (cases m) (simp_all add: counter_value_def snapshot_def observe_def)

lemma New_newly_registered:
  "New p w0 = Some (i, w) \<Longrightarrow> newly_registered w0 w = registrations p i"
  by (simp add: newly_registered_def New_SomeD(3))

lemma distinct_all_events: "distinct all_events"
  by (simp add: all_events_def)

lemma length_all_events: "length all_events = 28"
  by (simp add: all_events_def)

lemma suffix_free_all:
  "\<forall>e\<in>set all_events. \<forall>e'\<in>set all_events.
     suffix (metric_suffix e) (metric_suffix e') \<longrightarrow> e = e'"
  by code_simp

lemma float64_above_2_53: "float64 9007199254740993 = 9007199254740992"
  by code_simp

section \<open>Names under different prefixes\<close>

lemma suffix_free:
  assumes "suffix (metric_suffix e) (metric_suffix e')"
  shows "e = e'"
  using suffix_free_all assms by (simp add: set_all_events)

lemma prefixed_names_eq:
  assumes "p @ metric_suffix e = p' @ metric_suffix e'"
  shows "p = p'"
proof -
  from assms obtain u where u:
    "(p = p' @ u \<and> u @ metric_suffix e = metric_suffix e') \<or>
     (p @ u = p' \<and> metric_suffix e = u @ metric_suffix e')"
    by (auto simp: append_eq_append_conv2)
  have "e = e'"
    using u
  proof (elim disjE conjE)
    assume "u @ metric_suffix e = metric_suffix e'"
    then have "suffix (metric_suffix e) (metric_suffix e')"
      by (rule suffixI [OF sym])
    then show ?thesis by (rule suffix_free)
  next
    assume "metric_suffix e = u @ metric_suffix e'"
    then have "suffix (metric_suffix e') (metric_suffix e)"
      by (rule suffixI)
    then show ?thesis using suffix_free by blast
  qed
  with assms show ?thesis by simp
qed

lemma New_fresh_handles:
  assumes "New p w0 = Some (i, w)"
  shows "\<not> allocated w0 (bound_metric i e)"
  by (cases e) (simp_all add: New_SomeD(2) [OF assms] facade_at_def)

lemma New_registered_names:
  assumes "New p w0 = Some (i, w)"
  shows "set (registered_names w) = set (registered_names w0) \<union> range (\<lambda>e. p @ metric_suffix e)"
proof -
  have "set (map fst (registrations p i)) = range (\<lambda>e. p @ metric_suffix e)"
    unfolding registrations_names by (simp add: set_all_events)
  then show ?thesis
    by (simp add: registered_names_def New_SomeD(3) [OF assms])
qed

lemma registered_names_run: "registered_names (run i cs w) = registered_names w"
  by (simp add: registered_names_def run_registry)

lemma lookup_metric_append:
  assumes "lookup_metric w name = Some m" and "registry w' = registry w @ rs"
  shows "lookup_metric w' name = Some m"
  using assms by (auto simp: lookup_metric_def map_add_def split: option.splits)

lemma Render_counter:
  assumes "(n, d, CounterMetric k) \<in> set (registry w)"
  shows "Sample n (counter_value w k) \<in> set (Render w)"
proof -
  have "Sample n (counter_value w k) \<in> set (render_metric w (n, d, CounterMetric k))"
    by (simp add: render_metric_def counter_value_def)
  with assms show ?thesis
    unfolding Render_def by (auto intro!: bexI [where x = "(n, d, CounterMetric k)"])
qed

section \<open>The claims\<close>

subsection \<open>C1: every method updates the one metric bound to its event\<close>

text \<open>
  Claim C1 says that a count-argument method increments its bound counter by \<open>n\<close> and
  that a duration-argument method observes the duration's value in nanoseconds. Both fail
  above \<open>2 ^ 53\<close>, because the methods convert their argument with \<^verbatim>\<open>float64\<close>, which
  rounds: on a fresh facade \<^verbatim>\<open>InsertRecordCount(9007199254740993)\<close> leaves the counter at
  9007199254740992, and \<^verbatim>\<open>SelectDuration\<close> of 9007199254740993 nanoseconds records the sample
  9007199254740992.
\<close>

theorem increment_by_argument_counterexample:
  "Option.bind (scenario ''test_'' [CallInsertRecordCount 9007199254740993])
     (read_counter ''test_insert_record_count'') = Some 9007199254740992
   \<and> Option.bind (scenario ''test_'' [CallSelectDuration 9007199254740993])
     (read_histogram ''test_select_duration_nanoseconds'') =
     Some \<lparr>sample_count = 1, sample_sum = 9007199254740992, observations = [9007199254740992]\<rparr>
   \<and> (9007199254740992 :: real) \<noteq> of_int (sint (9007199254740993 :: int64))"
  by (simp add: scenario_def New_eq init_world_def registered_names_def facade_at_def
      registrations_def run_def InsertRecordCount_def IncrementBy_def read_counter_def
      lookup_metric_def counter_value_def float64_above_2_53 SelectDuration_def Add_def
      read_histogram_def snapshot_def Nanoseconds_def observe_def empty_histogram_def)

text \<open>
  Claim C1, amended. For a facade built by \<open>New p\<close> and after any calls \<open>cs\<close>, the method
  of every call \<open>c\<close> performs exactly one update, on the metric registered under \<open>p\<close>
  followed by the catalogue's name of the event: that metric is the struct field bound at
  construction, has the catalogue's type and is allocated in the store. The amount is 1 for a
  method without argument, \<^verbatim>\<open>float64(n)\<close> for a count and \<^verbatim>\<open>float64(d.Nanoseconds())\<close> for a
  duration; it is the argument itself whenever the argument's magnitude is at most
  \<open>2 ^ 53\<close>. The result does not depend on the registry's contents, so no method looks a
  metric up by name.
\<close>

theorem facade_method_updates_bound_metric:
  assumes "New p w0 = Some (i, w)"
  shows "lookup_metric (run i cs w) (p @ metric_suffix (event_of c)) = Some (bound_metric i (event_of c))
       \<and> allocated (run i cs w) (bound_metric i (event_of c))
       \<and> kind_of_metric (bound_metric i (event_of c)) = metric_type (event_of c)
       \<and> kind_of_arg (argument c) = argument_kind (event_of c)
       \<and> invoke i c (run i cs w) =
           update_metric (bound_metric i (event_of c)) (delta (argument c)) (run i cs w)
       \<and> (\<forall>r. invoke i c ((run i cs w)\<lparr>registry := r\<rparr>) = (invoke i c (run i cs w))\<lparr>registry := r\<rparr>)
       \<and> (\<bar>arg_value (argument c)\<bar> \<le> 2 ^ 53 \<longrightarrow> delta (argument c) = of_int (arg_value (argument c)))"
  using assms
  by (simp add: lookup_metric_run New_lookup allocated_run New_allocated kind_bound_metric
      kind_argument invoke_update update_metric_set_registry delta_exact)

theorem facade_method_updates_bound_metric_witness:
  "\<exists>i w. New ''test_'' init_world = Some (i, w)
     \<and> lookup_metric w ''test_select_keys_count'' = Some (CounterMetric (selectKeysCount i))
     \<and> invoke i (CallSelectKeys 7) w = update_metric (CounterMetric (selectKeysCount i)) 7 w"
proof -
  obtain i w where h: "New ''test_'' init_world = Some (i, w)"
    using New_test by blast
  have "delta (CountArg 7) = 7"
    by (simp add: float64_exact)
  with facade_method_updates_bound_metric [OF h, of "[]" "CallSelectKeys 7"] h
  show ?thesis by (simp add: run_Nil)
qed

subsection \<open>C2: negative arguments\<close>

text \<open>
  Claim C2 says that a negative argument is clamped or dropped, so that a call never
  decreases its metric. The methods contain no guard: after \<^verbatim>\<open>InsertRecordCount(4)\<close> the
  counter reads 4, and after a further \<^verbatim>\<open>InsertRecordCount(-5)\<close> it reads -1.
\<close>

theorem negative_count_counterexample:
  "Option.bind (scenario ''test_'' [CallInsertRecordCount 4])
     (read_counter ''test_insert_record_count'') = Some 4
   \<and> Option.bind (scenario ''test_'' [CallInsertRecordCount 4, CallInsertRecordCount (- 5)])
     (read_counter ''test_insert_record_count'') = Some (- 1)"
  by (simp add: scenario_def New_eq init_world_def registered_names_def facade_at_def
      registrations_def run_def InsertRecordCount_def IncrementBy_def read_counter_def
      lookup_metric_def counter_value_def float64_exact)

text \<open>
  Claim C2, amended. A negative count or duration is not guarded: it is converted to a
  negative \<^verbatim>\<open>float64\<close> and handed to the bound metric, whose total (the value of a counter,
  the running sum of a histogram) goes down by that amount. The method still returns
  normally: in the model every method is a total function on stores.
\<close>

theorem negative_argument_passes_through:
  assumes "New p w0 = Some (i, w)" and "arg_value (argument c) < 0"
  shows "delta (argument c) < 0
       \<and> lookup_metric (run i cs w) (p @ metric_suffix (event_of c)) = Some (bound_metric i (event_of c))
       \<and> metric_total (invoke i c (run i cs w)) (bound_metric i (event_of c)) =
           metric_total (run i cs w) (bound_metric i (event_of c)) + delta (argument c)
       \<and> metric_total (invoke i c (run i cs w)) (bound_metric i (event_of c)) <
           metric_total (run i cs w) (bound_metric i (event_of c))"
  using assms delta_neg [OF assms(2)]
  by (simp add: lookup_metric_run New_lookup invoke_update metric_total_update allocated_run New_allocated)

theorem negative_argument_passes_through_witness:
  "\<exists>i w. New ''test_'' init_world = Some (i, w)
     \<and> arg_value (argument (CallSelectKeys (- 2))) < 0
     \<and> metric_total (invoke i (CallSelectKeys (- 2)) w) (bound_metric i SelectKeysEvent)
         < metric_total w (bound_metric i SelectKeysEvent)"
proof -
  obtain i w where h: "New ''test_'' init_world = Some (i, w)"
    using New_test by blast
  have a: "arg_value (argument (CallSelectKeys (- 2))) < 0" by simp
  from negative_argument_passes_through [OF h a, of "[]"] h a
  show ?thesis by (simp add: run_Nil)
qed

subsection \<open>C3: what New registers\<close>

text \<open>
  Claim C3. A successful \<open>New p\<close> appends exactly 28 registrations to the registry, one per
  event of the catalogue and in the catalogue's order, each under \<open>p\<close> followed by the
  catalogue's metric name; the metric registered for an event has the catalogue's type
  (counter or histogram), the 28 objects are pairwise different, the name of each event looks
  up the struct field of that event, and that field is the object the event's method updates
  later.
\<close>

theorem New_registers_catalogue:
  assumes "New p w0 = Some (i, w)"
  shows "registry w = registry w0 @ newly_registered w0 w
       \<and> map fst (newly_registered w0 w) = map (\<lambda>e. p @ metric_suffix e) all_events
       \<and> map (\<lambda>r. snd (snd r)) (newly_registered w0 w) = map (bound_metric i) all_events
       \<and> length (newly_registered w0 w) = 28
       \<and> length all_events = 28 \<and> distinct all_events \<and> set all_events = UNIV
       \<and> (\<forall>e. kind_of_metric (bound_metric i e) = metric_type e)
       \<and> (\<forall>e. lookup_metric w (p @ metric_suffix e) = Some (bound_metric i e))
       \<and> (\<forall>e e'. bound_metric i e = bound_metric i e' \<longrightarrow> e = e')
       \<and> (\<forall>c cs. invoke i c (run i cs w) =
            update_metric (bound_metric i (event_of c)) (delta (argument c)) (run i cs w))"
proof -
  have inj: "\<forall>e e'. bound_metric i e = bound_metric i e' \<longrightarrow> e = e'"
    using bound_metric_inj [OF assms] by blast
  show ?thesis
    using inj
    by (simp add: New_newly_registered [OF assms] New_SomeD(3) [OF assms] registrations_names
        registrations_metrics length_registrations length_all_events distinct_all_events set_all_events
        kind_bound_metric New_lookup [OF assms] invoke_update)
qed

theorem New_registers_catalogue_witness:
  "\<exists>i w. New ''test_'' init_world = Some (i, w)
     \<and> map fst (newly_registered init_world w) = map (\<lambda>e. ''test_'' @ metric_suffix e) all_events
     \<and> lookup_metric w ''test_walk_keys_count'' = Some (CounterMetric (walkKeysCount i))
     \<and> lookup_metric w ''test_select_duration_nanoseconds'' = Some (HistogramMetric (selectDuration i))"
proof -
  obtain i w where h: "New ''test_'' init_world = Some (i, w)"
    using New_test by blast
  from New_registers_catalogue [OF h]
  have "lookup_metric w (''test_'' @ metric_suffix WalkKeysEvent) = Some (bound_metric i WalkKeysEvent)"
    and "lookup_metric w (''test_'' @ metric_suffix SelectDurationEvent) = Some (bound_metric i SelectDurationEvent)"
    and "map fst (newly_registered init_world w) = map (\<lambda>e. ''test_'' @ metric_suffix e) all_events"
    by blast+
  with h show ?thesis by simp
qed

subsection \<open>C4: counters start at zero and never decrease\<close>

text \<open>
  Claim C4. Every counter of a facade built by \<open>New\<close> reads 0 at construction, and after
  any calls \<open>cs\<close> a further sequence \<open>cs'\<close> of calls with non-negative arguments does not
  decrease it.
\<close>

theorem counters_start_at_zero_and_never_decrease:
  assumes "New p w0 = Some (i, w)"
    and "bound_metric i e = CounterMetric k"
    and "\<forall>c\<in>set cs'. 0 \<le> arg_value (argument c)"
  shows "counter_value w k = 0
       \<and> counter_value (run i cs w) k \<le> counter_value (run i (cs @ cs') w) k"
proof -
  have len: "counter_addr k < length (counters (run i cs w))"
    using New_counter_zero(2) [OF assms(1,2)] by (simp add: run_counters_length)
  have "0 \<le> sum_list (map (contribution i k) cs')"
    using assms(3) by (intro sum_list_nonneg) (auto simp: contribution_nonneg)
  then show ?thesis
    using New_counter_zero(1) [OF assms(1,2)] counter_value_run [OF len, of i cs']
    by (simp add: run_append)
qed

theorem counters_start_at_zero_and_never_decrease_witness:
  "\<exists>i w. New ''test_'' init_world = Some (i, w)
     \<and> counter_value w (insertCallCount i) = 0
     \<and> counter_value (run i [CallInsertCall] w) (insertCallCount i)
         \<le> counter_value (run i ([CallInsertCall] @ [CallInsertRecordCount 2, CallInsertCall]) w)
             (insertCallCount i)"
proof -
  obtain i w where h: "New ''test_'' init_world = Some (i, w)"
    using New_test by blast
  have b: "bound_metric i InsertCallEvent = CounterMetric (insertCallCount i)" by simp
  have n: "\<forall>c\<in>set [CallInsertRecordCount 2, CallInsertCall]. 0 \<le> arg_value (argument c)"
    by simp
  from counters_start_at_zero_and_never_decrease [OF h b n, of "[CallInsertCall]"] h
  show ?thesis by blast
qed

subsection \<open>C5: counts add up\<close>

text \<open>
  Claim C5 says that the counter ends at the sum of the counts for all non-negative
  counts. A count above \<open>2 ^ 53\<close> is rounded by the conversion to \<^verbatim>\<open>float64\<close>: after
  \<^verbatim>\<open>RepairRequest(9007199254740993)\<close> and \<^verbatim>\<open>RepairRequest(1)\<close> on a fresh facade the counter
  reads 9007199254740993, one less than the sum.
\<close>

theorem count_calls_sum_counterexample:
  "Option.bind (scenario ''test_'' [CallRepairRequest 9007199254740993, CallRepairRequest 1])
     (read_counter ''test_repair_request_count'') = Some 9007199254740993
   \<and> (9007199254740993 :: real) \<noteq>
       of_int (sint (9007199254740993 :: go_int) + sint (1 :: go_int))"
  by (simp add: scenario_def New_eq init_world_def registered_names_def facade_at_def
      registrations_def run_def RepairRequest_def IncrementBy_def read_counter_def
      lookup_metric_def counter_value_def float64_above_2_53 float64_exact)

text \<open>
  Claim C5, amended. For calls \<open>cs\<close> of one count-taking method with counts \<open>ks\<close>, each
  between 0 and \<open>2 ^ 53\<close>, made in any order \<open>cs'\<close> on a freshly built facade, the counter
  bound to the method ends at the sum of the counts.
\<close>

theorem count_calls_add_up:
  assumes "New p w0 = Some (i, w)"
    and "argument_kind e = CountArgument"
    and "\<forall>c\<in>set cs. event_of c = e"
    and "map argument cs = map CountArg ks"
    and "\<forall>n\<in>set ks. 0 \<le> sint n \<and> sint n \<le> 2 ^ 53"
    and "mset cs' = mset cs"
  shows "read_counter (p @ metric_suffix e) (run i cs' w) = Some (of_int (\<Sum>n\<leftarrow>ks. sint n))"
proof -
  obtain k where k: "bound_metric i e = CounterMetric k"
    using count_event_counter [OF assms(2)] by blast
  have len: "counter_addr k < length (counters w)"
    by (rule New_counter_zero(2) [OF assms(1) k])
  have "sum_list (map (contribution i k) cs') = sum_mset (image_mset (contribution i k) (mset cs'))"
    by (simp add: sum_mset_sum_list [symmetric])
  also have "\<dots> = sum_list (map (contribution i k) cs)"
    by (simp add: assms(6) sum_mset_sum_list [symmetric])
  also have "\<dots> = sum_list (map (\<lambda>c. delta (argument c)) cs)"
    using assms(3) k by (intro arg_cong [where f = sum_list] map_cong) (simp_all add: contribution_def)
  also have "\<dots> = sum_list (map delta (map argument cs))"
    by (simp add: comp_def)
  also have "\<dots> = of_int (\<Sum>n\<leftarrow>ks. sint n)"
    unfolding assms(4) using assms(5) by (intro sum_list_delta_counts) auto
  finally have "counter_value (run i cs' w) k = of_int (\<Sum>n\<leftarrow>ks. sint n)"
    using counter_value_run [OF len, of i cs'] New_counter_zero(1) [OF assms(1) k] by simp
  then show ?thesis
    by (simp add: read_counter_def lookup_metric_run New_lookup [OF assms(1)] k)
qed

theorem count_calls_add_up_witness:
  "\<exists>i w. New ''test_'' init_world = Some (i, w)
     \<and> read_counter ''test_repair_request_count''
         (run i [CallRepairRequest 3, CallRepairRequest 2] w) = Some 5"
proof -
  obtain i w where h: "New ''test_'' init_world = Some (i, w)"
    using New_test by blast
  have k: "argument_kind RepairRequestEvent = CountArgument" by simp
  have e: "\<forall>c\<in>set [CallRepairRequest 2, CallRepairRequest 3]. event_of c = RepairRequestEvent"
    by simp
  have a: "map argument [CallRepairRequest 2, CallRepairRequest 3] = map CountArg [2, 3]"
    by simp
  have r: "\<forall>n\<in>set [2, 3 :: go_int]. 0 \<le> sint n \<and> sint n \<le> 2 ^ 53"
    by simp
  have m: "mset [CallRepairRequest 3, CallRepairRequest 2] =
           mset [CallRepairRequest 2, CallRepairRequest 3]"
    by (simp add: add_mset_commute)
  from count_calls_add_up [OF h k e a r m] h
  show ?thesis by simp
qed

subsection \<open>C6: a duplicate name is fatal\<close>

text \<open>
  Claim C6. Once a facade has been built under \<open>p\<close>, registering any of its names again
  is fatal, and so is a second \<open>New p\<close>, whatever calls were made in between. \<open>New p'\<close>
  under a different prefix, whose names were free before the first facade, succeeds; then
  every name of either facade looks up that facade's own metric, and no object is shared
  between the two.
\<close>

theorem duplicate_prefix_is_fatal:
  assumes "New p w0 = Some (i, w)"
  shows "(\<forall>e d m. Register (p @ metric_suffix e) d m (run i cs w) = None)
       \<and> New p (run i cs w) = None
       \<and> (p' \<noteq> p \<and> (\<forall>e. p' @ metric_suffix e \<notin> set (registered_names w0)) \<longrightarrow>
            (\<exists>i' w'. New p' (run i cs w) = Some (i', w')
               \<and> (\<forall>e. lookup_metric w' (p @ metric_suffix e) = Some (bound_metric i e)
                     \<and> lookup_metric w' (p' @ metric_suffix e) = Some (bound_metric i' e))
               \<and> (\<forall>e e'. bound_metric i e \<noteq> bound_metric i' e')))"
proof -
  have names: "set (registered_names (run i cs w)) =
      set (registered_names w0) \<union> range (\<lambda>e. p @ metric_suffix e)"
    by (simp add: registered_names_run New_registered_names [OF assms])
  have taken: "p @ metric_suffix e \<in> set (registered_names (run i cs w))" for e
    unfolding names by blast
  have reg: "\<forall>e d m. Register (p @ metric_suffix e) d m (run i cs w) = None"
    by (simp add: Register_def taken)
  have again: "New p (run i cs w) = None"
    using taken by (auto simp: New_eq)
  have other: "\<exists>i' w'. New p' (run i cs w) = Some (i', w')
      \<and> (\<forall>e. lookup_metric w' (p @ metric_suffix e) = Some (bound_metric i e)
            \<and> lookup_metric w' (p' @ metric_suffix e) = Some (bound_metric i' e))
      \<and> (\<forall>e e'. bound_metric i e \<noteq> bound_metric i' e')"
    if neq: "p' \<noteq> p" and free: "\<forall>e. p' @ metric_suffix e \<notin> set (registered_names w0)"
  proof -
    have "p' @ metric_suffix e \<notin> set (registered_names (run i cs w))" for e
      unfolding names using free neq prefixed_names_eq [of p' e p] by auto
    then obtain i' w' where h': "New p' (run i cs w) = Some (i', w')"
      by (simp add: New_eq)
    have l1: "lookup_metric w' (p @ metric_suffix e) = Some (bound_metric i e)" for e
    proof (rule lookup_metric_append)
      show "lookup_metric (run i cs w) (p @ metric_suffix e) = Some (bound_metric i e)"
        by (simp add: lookup_metric_run New_lookup [OF assms])
      show "registry w' = registry (run i cs w) @ registrations p' i'"
        by (rule New_SomeD(3) [OF h'])
    qed
    have l2: "lookup_metric w' (p' @ metric_suffix e) = Some (bound_metric i' e)" for e
      by (rule New_lookup [OF h'])
    have "bound_metric i e \<noteq> bound_metric i' e'" for e e'
    proof
      assume eq: "bound_metric i e = bound_metric i' e'"
      have "allocated (run i cs w) (bound_metric i e)"
        by (simp add: allocated_run New_allocated [OF assms])
      moreover have "\<not> allocated (run i cs w) (bound_metric i' e')"
        by (rule New_fresh_handles [OF h'])
      ultimately show False using eq by simp
    qed
    with h' l1 l2 show ?thesis by blast
  qed
  from reg again other show ?thesis by blast
qed

theorem duplicate_prefix_is_fatal_witness:
  "\<exists>i w. New ''a_'' init_world = Some (i, w)
     \<and> New ''a_'' (run i [CallInsertCall] w) = None
     \<and> (\<exists>i' w'. New ''b_'' (run i [CallInsertCall] w) = Some (i', w')
          \<and> lookup_metric w' ''a_insert_call_count'' = Some (CounterMetric (insertCallCount i))
          \<and> lookup_metric w' ''b_insert_call_count'' = Some (CounterMetric (insertCallCount i')))"
proof -
  obtain i w where h: "New ''a_'' init_world = Some (i, w)"
    by (simp add: New_eq init_world_def registered_names_def)
  have f: "''b_'' \<noteq> ''a_'' \<and> (\<forall>e. ''b_'' @ metric_suffix e \<notin> set (registered_names init_world))"
    by (simp add: init_world_def registered_names_def)
  from duplicate_prefix_is_fatal [OF h, of "[CallInsertCall]" "''b_''"] f
  obtain i' w' where "New ''a_'' (run i [CallInsertCall] w) = None"
    and "New ''b_'' (run i [CallInsertCall] w) = Some (i', w')"
    and "\<forall>e. lookup_metric w' (''a_'' @ metric_suffix e) = Some (bound_metric i e)
           \<and> lookup_metric w' (''b_'' @ metric_suffix e) = Some (bound_metric i' e)"
    by blast
  then have "New ''a_'' (run i [CallInsertCall] w) = None"
    and "New ''b_'' (run i [CallInsertCall] w) = Some (i', w')"
    and "lookup_metric w' (''a_'' @ metric_suffix InsertCallEvent) = Some (bound_metric i InsertCallEvent)"
    and "lookup_metric w' (''b_'' @ metric_suffix InsertCallEvent) = Some (bound_metric i' InsertCallEvent)"
    by blast+
  with h show ?thesis by simp
qed

subsection \<open>C7: the scenario of the specification\<close>

text \<open>
  Claim C7. On a fresh process, for the facade \<^verbatim>\<open>New("test_")\<close> and three calls of
  \<^verbatim>\<open>InsertCall()\<close> and two of \<^verbatim>\<open>InsertRecordCount(5)\<close> in any order, the rendering has the
  sample line of \<^verbatim>\<open>test_insert_call_count\<close> with value 3 and that of
  \<^verbatim>\<open>test_insert_record_count\<close> with value 10.
\<close>

theorem test_scenario_rendering:
  assumes "mset cs = mset [CallInsertCall, CallInsertCall, CallInsertCall,
                           CallInsertRecordCount 5, CallInsertRecordCount 5]"
  shows "\<exists>w. scenario ''test_'' cs = Some w
           \<and> Sample ''test_insert_call_count'' 3 \<in> set (Render w)
           \<and> Sample ''test_insert_record_count'' 10 \<in> set (Render w)"
proof -
  define i where "i = facade_at 0 0"
  obtain w where h: "New ''test_'' init_world = Some (i, w)"
    by (simp add: New_eq init_world_def registered_names_def i_def)
  have sc: "scenario ''test_'' cs = Some (run i cs w)"
    by (simp add: scenario_def h)
  have sums: "sum_list (map (contribution i k) cs) =
      sum_list (map (contribution i k) [CallInsertCall, CallInsertCall, CallInsertCall,
                           CallInsertRecordCount 5, CallInsertRecordCount 5])" for k
  proof -
    have "sum_list (map (contribution i k) cs) = sum_mset (image_mset (contribution i k) (mset cs))"
      by (simp add: sum_mset_sum_list [symmetric])
    then show ?thesis
      unfolding assms by (simp add: sum_mset_sum_list [symmetric])
  qed
  have five: "float64 5 = 5" by (simp add: float64_exact)
  have v1: "counter_value (run i cs w) (insertCallCount i) = 3"
    using counter_value_run [OF New_counter_zero(2) [OF h, of InsertCallEvent], of "insertCallCount i" i cs]
      New_counter_zero(1) [OF h, of InsertCallEvent "insertCallCount i"]
    by (simp add: sums contribution_def) (simp add: i_def facade_at_def)
  have v2: "counter_value (run i cs w) (insertRecordCount i) = 10"
    using counter_value_run [OF New_counter_zero(2) [OF h, of InsertRecordCountEvent], of "insertRecordCount i" i cs]
      New_counter_zero(1) [OF h, of InsertRecordCountEvent "insertRecordCount i"]
    by (simp add: sums contribution_def five) (simp add: i_def facade_at_def)
  have r: "registry (run i cs w) = registrations ''test_'' i"
    using New_SomeD(3) [OF h] by (simp add: run_registry init_world_def)
  have "Sample ''test_insert_call_count'' (counter_value (run i cs w) (insertCallCount i))
          \<in> set (Render (run i cs w))"
    by (rule Render_counter [where d = "''How many insert calls have been made.''"])
      (simp add: r registrations_def)
  moreover have "Sample ''test_insert_record_count'' (counter_value (run i cs w) (insertRecordCount i))
          \<in> set (Render (run i cs w))"
    by (rule Render_counter [where d = "''How many records have been inserted.''"])
      (simp add: r registrations_def)
  ultimately show ?thesis
    using sc v1 v2 by simp
qed

theorem test_scenario_rendering_witness:
  "\<exists>w. scenario ''test_'' [CallInsertCall, CallInsertRecordCount 5, CallInsertCall,
                           CallInsertRecordCount 5, CallInsertCall] = Some w
     \<and> Sample ''test_insert_call_count'' 3 \<in> set (Render w)
     \<and> Sample ''test_insert_record_count'' 10 \<in> set (Render w)"
proof -
  have "mset [CallInsertCall, CallInsertRecordCount 5, CallInsertCall,
              CallInsertRecordCount 5, CallInsertCall] =
        mset [CallInsertCall, CallInsertCall, CallInsertCall,
              CallInsertRecordCount 5, CallInsertRecordCount 5]"
    by (simp add: add_mset_commute)
  then show ?thesis by (rule test_scenario_rendering)
qed

subsection \<open>C8: the frame of a method\<close>

text \<open>
  Claim C8. For a facade built by \<open>New p\<close>, after any calls \<open>cs\<close>, a call \<open>c\<close> leaves the
  reading of the metric of every other event unchanged, and indeed of every object other
  than the one bound to its event; it leaves the registry and the sizes of the store
  unchanged, every event's name still looks up the struct field bound at construction, and
  different events are bound to different objects, so no metric is written by two methods.
\<close>

theorem facade_method_frame:
  assumes "New p w0 = Some (i, w)"
  shows "(\<forall>e. e \<noteq> event_of c \<longrightarrow>
            state_by_name (invoke i c (run i cs w)) (p @ metric_suffix e) =
            state_by_name (run i cs w) (p @ metric_suffix e))
       \<and> (\<forall>m. m \<noteq> bound_metric i (event_of c) \<longrightarrow>
            metric_state (invoke i c (run i cs w)) m = metric_state (run i cs w) m)
       \<and> registry (invoke i c (run i cs w)) = registry w
       \<and> (\<forall>e. lookup_metric (invoke i c (run i cs w)) (p @ metric_suffix e) = Some (bound_metric i e))
       \<and> (\<forall>e e'. bound_metric i e = bound_metric i e' \<longrightarrow> e = e')
       \<and> length (counters (invoke i c (run i cs w))) = length (counters w)
       \<and> length (histograms (invoke i c (run i cs w))) = length (histograms w)"
proof -
  have reg: "registry (invoke i c (run i cs w)) = registry w"
    by (simp add: invoke_update update_metric_registry run_registry)
  then have look: "lookup_metric (invoke i c (run i cs w)) name = lookup_metric w name" for name
    by (simp add: lookup_metric_def)
  have other: "\<forall>m. m \<noteq> bound_metric i (event_of c) \<longrightarrow>
      metric_state (invoke i c (run i cs w)) m = metric_state (run i cs w) m"
    by (simp add: invoke_update metric_state_update_other)
  have named: "\<forall>e. e \<noteq> event_of c \<longrightarrow>
      state_by_name (invoke i c (run i cs w)) (p @ metric_suffix e) =
      state_by_name (run i cs w) (p @ metric_suffix e)"
  proof (intro allI impI)
    fix e
    assume "e \<noteq> event_of c"
    then have "bound_metric i e \<noteq> bound_metric i (event_of c)"
      using bound_metric_inj [OF assms] by blast
    with other show "state_by_name (invoke i c (run i cs w)) (p @ metric_suffix e) =
        state_by_name (run i cs w) (p @ metric_suffix e)"
      unfolding state_by_name_def look lookup_metric_run New_lookup [OF assms] by simp
  qed
  have bindings: "\<forall>e. lookup_metric (invoke i c (run i cs w)) (p @ metric_suffix e) =
      Some (bound_metric i e)"
    by (simp add: look New_lookup [OF assms])
  have inj: "\<forall>e e'. bound_metric i e = bound_metric i e' \<longrightarrow> e = e'"
    using bound_metric_inj [OF assms] by blast
  have lc: "length (counters (invoke i c (run i cs w))) = length (counters w)"
    by (simp add: invoke_update update_metric_counters_length run_counters_length)
  have lh: "length (histograms (invoke i c (run i cs w))) = length (histograms w)"
    by (simp add: invoke_update update_metric_histograms_length run_histograms_length)
  show ?thesis
    by (intro conjI named other reg bindings inj lc lh)
qed

theorem facade_method_frame_witness:
  "\<exists>i w. New ''test_'' init_world = Some (i, w)
     \<and> state_by_name (invoke i (CallInsertRecordCount 4) w) ''test_walk_keys_count''
         = state_by_name w ''test_walk_keys_count''
     \<and> registry (invoke i (CallInsertRecordCount 4) w) = registry w
     \<and> lookup_metric (invoke i (CallInsertRecordCount 4) w) ''test_insert_record_count''
         = Some (CounterMetric (insertRecordCount i))"
proof -
  obtain i w where h: "New ''test_'' init_world = Some (i, w)"
    using New_test by blast
  have n: "WalkKeysEvent \<noteq> event_of (CallInsertRecordCount 4)" by simp
  from facade_method_frame [OF h, of "CallInsertRecordCount 4" "[]"] n
  have "state_by_name (invoke i (CallInsertRecordCount 4) (run i [] w)) (''test_'' @ metric_suffix WalkKeysEvent)
          = state_by_name (run i [] w) (''test_'' @ metric_suffix WalkKeysEvent)"
    and "registry (invoke i (CallInsertRecordCount 4) (run i [] w)) = registry w"
    and "lookup_metric (invoke i (CallInsertRecordCount 4) (run i [] w))
           (''test_'' @ metric_suffix InsertRecordCountEvent) = Some (bound_metric i InsertRecordCountEvent)"
    by blast+
  with h show ?thesis by (simp add: run_Nil)
qed

subsection \<open>C9: the names of one facade never collide\<close>

text \<open>
  Claim C9. If no registered name starts with \<open>p\<close>, then \<open>New p\<close> succeeds and the 28
  names it registers are \<open>p\<close> followed by the catalogue's names, pairwise distinct. On the
  empty registry \<open>New p\<close> succeeds for every \<open>p\<close>.
\<close>

theorem New_succeeds_when_prefix_unused:
  assumes "\<forall>name\<in>set (registered_names w0). \<not> prefix p name"
  shows "(\<exists>i w. New p w0 = Some (i, w)
           \<and> map fst (newly_registered w0 w) = map (\<lambda>e. p @ metric_suffix e) all_events
           \<and> length (newly_registered w0 w) = 28
           \<and> distinct (map fst (newly_registered w0 w)))
       \<and> (\<exists>i w. New p init_world = Some (i, w))"
proof -
  have "\<not> (\<exists>e. p @ metric_suffix e \<in> set (registered_names w0))"
    using assms by auto
  then obtain i w where h: "New p w0 = Some (i, w)"
    by (simp add: New_eq)
  have n: "map fst (newly_registered w0 w) = map (\<lambda>e. p @ metric_suffix e) all_events"
    by (simp add: New_newly_registered [OF h] registrations_names)
  have "length (map fst (newly_registered w0 w)) = 28"
    unfolding n by (simp add: length_all_events)
  then have l: "length (newly_registered w0 w) = 28" by simp
  have d: "distinct (map fst (newly_registered w0 w))"
    unfolding n by (rule distinct_names)
  have "\<exists>i w. New p init_world = Some (i, w)"
    by (simp add: New_eq init_world_def registered_names_def)
  with h n l d show ?thesis by blast
qed

theorem New_succeeds_when_prefix_unused_witness:
  "\<exists>i w i' w'. New ''a_'' init_world = Some (i, w) \<and> New ''b_'' w = Some (i', w')
     \<and> length (newly_registered w w') = 28 \<and> distinct (map fst (newly_registered w w'))"
proof -
  obtain i w where h: "New ''a_'' init_world = Some (i, w)"
    by (simp add: New_eq init_world_def registered_names_def)
  have "set (registered_names w) = range (\<lambda>e. ''a_'' @ metric_suffix e)"
    using New_registered_names [OF h] by (simp add: init_world_def registered_names_def)
  then have "\<forall>name\<in>set (registered_names w). \<not> prefix ''b_'' name"
    by auto
  from New_succeeds_when_prefix_unused [OF this] h
  show ?thesis by blast
qed

subsection \<open>C10: arguments pass through the conversion only\<close>

text \<open>
  Claim C10 says that the value handed to the histogram equals the duration's exact
  nanosecond count. The conversion rounds above \<open>2 ^ 53\<close>: \<^verbatim>\<open>InsertCallDuration\<close> of
  9007199254740993 nanoseconds (about 104 days) records the sample 9007199254740992.
\<close>

theorem observed_value_counterexample:
  "Option.bind (scenario ''test_'' [CallInsertCallDuration 9007199254740993])
     (read_histogram ''test_insert_call_duration_nanoseconds'') =
     Some \<lparr>sample_count = 1, sample_sum = 9007199254740992, observations = [9007199254740992]\<rparr>
   \<and> (9007199254740992 :: real) \<noteq> of_int (sint (Nanoseconds 9007199254740993))"
  by (simp add: scenario_def New_eq init_world_def registered_names_def facade_at_def
      registrations_def run_def InsertCallDuration_def Add_def read_histogram_def
      lookup_metric_def snapshot_def float64_above_2_53 Nanoseconds_def observe_def empty_histogram_def)

text \<open>
  Claim C10, amended. Every count-argument method hands \<^verbatim>\<open>float64(n)\<close> to
  \<^verbatim>\<open>IncrementBy\<close> of its counter and every duration-argument method hands
  \<^verbatim>\<open>float64(d.Nanoseconds())\<close> to \<^verbatim>\<open>Add\<close> of its histogram, with no validation or clamping,
  for negative arguments too; the value handed over equals the argument whenever the
  argument's magnitude is at most \<open>2 ^ 53\<close>.
\<close>

theorem arguments_pass_through_unguarded:
  "(argument c = CountArg n \<longrightarrow>
      (\<exists>k. bound_metric i (event_of c) = CounterMetric k
          \<and> invoke i c w = IncrementBy k (float64 n) w))
   \<and> (argument c = DurationArg d \<longrightarrow>
      (\<exists>h. bound_metric i (event_of c) = HistogramMetric h
          \<and> invoke i c w = Add h (float64 (Nanoseconds d)) w))
   \<and> (\<bar>sint n\<bar> \<le> 2 ^ 53 \<longrightarrow> float64 n = of_int (sint n))
   \<and> (\<bar>sint d\<bar> \<le> 2 ^ 53 \<longrightarrow> float64 (Nanoseconds d) = of_int (sint d))"
  by (cases c) (simp_all add: method_defs float64_exact Nanoseconds_def)

theorem arguments_pass_through_unguarded_witness:
  "\<exists>i w. New ''test_'' init_world = Some (i, w)
     \<and> invoke i (CallWalkKeys (- 3)) w = IncrementBy (walkKeysCount i) (- 3) w
     \<and> invoke i (CallSelectDuration 1500000) w = Add (selectDuration i) 1500000 w"
proof -
  obtain i w where h: "New ''test_'' init_world = Some (i, w)"
    using New_test by blast
  from arguments_pass_through_unguarded [of "CallWalkKeys (- 3)" "- 3" i w 0]
    arguments_pass_through_unguarded [of "CallSelectDuration 1500000" 0 i w 1500000] h
  show ?thesis by simp
qed

end
